theory Spec2Isabelle
  imports Complex_Main
begin

section \<open>Numbers and matrices\<close>

text \<open>
  Go's \<open>float64\<close>: the finite values are represented by reals (rounding and signed zeros are
  left out), the three special values are kept, since \<open>panicIfNaN\<close> tells them apart.
  The arithmetic follows IEEE 754 on the special values.
\<close>

datatype float64 = Fin real | PInf | NInf | NaN

fun IsNaN :: "float64 \<Rightarrow> bool" where
  "IsNaN NaN = True"
| "IsNaN _ = False"

fun f_neg :: "float64 \<Rightarrow> float64" where
  "f_neg (Fin a) = Fin (- a)"
| "f_neg PInf = NInf"
| "f_neg NInf = PInf"
| "f_neg NaN = NaN"

fun f_add :: "float64 \<Rightarrow> float64 \<Rightarrow> float64" where
  "f_add (Fin a) (Fin b) = Fin (a + b)"
| "f_add (Fin a) PInf = PInf"
| "f_add (Fin a) NInf = NInf"
| "f_add PInf (Fin b) = PInf"
| "f_add PInf PInf = PInf"
| "f_add NInf (Fin b) = NInf"
| "f_add NInf NInf = NInf"
| "f_add PInf NInf = NaN"
| "f_add NInf PInf = NaN"
| "f_add NaN y = NaN"
| "f_add x NaN = NaN"

definition f_sub :: "float64 \<Rightarrow> float64 \<Rightarrow> float64" where
  "f_sub x y = f_add x (f_neg y)"

definition inf_of_sign :: "real \<Rightarrow> float64" where
  "inf_of_sign s = (if 0 < s then PInf else if s < 0 then NInf else NaN)"

fun f_mul :: "float64 \<Rightarrow> float64 \<Rightarrow> float64" where
  "f_mul (Fin a) (Fin b) = Fin (a * b)"
| "f_mul (Fin a) PInf = inf_of_sign a"
| "f_mul (Fin a) NInf = inf_of_sign (- a)"
| "f_mul PInf (Fin b) = inf_of_sign b"
| "f_mul NInf (Fin b) = inf_of_sign (- b)"
| "f_mul PInf PInf = PInf"
| "f_mul NInf NInf = PInf"
| "f_mul PInf NInf = NInf"
| "f_mul NInf PInf = NInf"
| "f_mul NaN y = NaN"
| "f_mul x NaN = NaN"

text \<open>
  The panics of the run-time system and of the matrix library that the driver can meet.
\<close>

datatype error =
    ErrShape
  | ErrNegativeDimension
  | NilPointer
  | IndexOutOfRange
  | Panic string

text \<open>
  gonum's \<open>mat.Matrix\<close> interface is a shape and an element reader. A \<open>*mat.Dense\<close> is a
  matrix whose elements are stored; a view is a matrix whose elements are computed on read.
  Both are values of the same record. Reading outside the shape panics in gonum; no
  operation below does it.
\<close>

record matrix =
  Rows :: nat
  Cols :: nat
  At :: "nat \<Rightarrow> nat \<Rightarrow> float64"

definition to_rows :: "matrix \<Rightarrow> float64 list list" where
  "to_rows m = map (\<lambda>i. map (\<lambda>j. At m i j) [0..<Cols m]) [0..<Rows m]"

definition of_rows :: "float64 list list \<Rightarrow> matrix" where
  "of_rows rs = \<lparr>Rows = length rs, Cols = (case rs of [] \<Rightarrow> 0 | r # _ \<Rightarrow> length r),
                 At = (\<lambda>i j. rs ! i ! j)\<rparr>"

definition NewDense :: "int \<Rightarrow> int \<Rightarrow> error + matrix" where
  "NewDense r c =
     (if r < 0 \<or> c < 0 then Inl ErrNegativeDimension
      else Inr \<lparr>Rows = nat r, Cols = nat c, At = (\<lambda>i j. Fin 0)\<rparr>)"

definition T_mat :: "matrix \<Rightarrow> matrix" where
  "T_mat m = \<lparr>Rows = Cols m, Cols = Rows m, At = (\<lambda>i j. At m j i)\<rparr>"

text \<open>
  Modelled from the spec: the three lazy views \<open>onesAddedMat\<close>, \<open>appliedMat\<close> and
  \<open>firstColumnRemovedMat\<close> are declared in another file of the package. The bias-augmented
  view has constant 1 in logical column 0 and mirrors the underlying matrix in the columns
  from 1 on; the elementwise-mapped view returns \<open>f\<close> of the underlying element; the
  bias-trimmed view drops the first column of the matrix it wraps, which the driver
  applies to the transpose of the next layer's weights (whose column 0 is the bias row of
  the weights).
\<close>

definition onesAddedMat :: "matrix \<Rightarrow> matrix" where
  "onesAddedMat m =
     \<lparr>Rows = Rows m, Cols = 1 + Cols m, At = (\<lambda>i j. if j = 0 then Fin 1 else At m i (j - 1))\<rparr>"

definition appliedMat :: "matrix \<Rightarrow> (float64 \<Rightarrow> float64) \<Rightarrow> matrix" where
  "appliedMat m f = \<lparr>Rows = Rows m, Cols = Cols m, At = (\<lambda>i j. f (At m i j))\<rparr>"

definition firstColumnRemovedMat :: "matrix \<Rightarrow> matrix" where
  "firstColumnRemovedMat m = \<lparr>Rows = Rows m, Cols = Cols m - 1, At = (\<lambda>i j. At m i (j + 1))\<rparr>"

text \<open>
  The methods of \<open>*mat.Dense\<close> write their result into the receiver: an empty receiver
  takes the shape of the result, any other receiver must have it already
  (\<open>reuseAs\<close>), and the operands must fit. \<open>Clone\<close> alone reshapes the receiver.
\<close>

definition IsEmpty :: "matrix \<Rightarrow> bool" where
  "IsEmpty m = (Cols m = 0)"

definition reuseAs :: "matrix \<Rightarrow> nat \<Rightarrow> nat \<Rightarrow> bool" where
  "reuseAs m r c = (IsEmpty m \<or> (Rows m = r \<and> Cols m = c))"

definition dot :: "nat \<Rightarrow> (nat \<Rightarrow> float64) \<Rightarrow> (nat \<Rightarrow> float64) \<Rightarrow> float64" where
  "dot n f g = foldl (\<lambda>s k. f_add s (f_mul (f k) (g k))) (Fin 0) [0..<n]"

definition mat_mul :: "matrix \<Rightarrow> matrix \<Rightarrow> matrix" where
  "mat_mul a b =
     \<lparr>Rows = Rows a, Cols = Cols b, At = (\<lambda>i j. dot (Cols a) (\<lambda>k. At a i k) (\<lambda>k. At b k j))\<rparr>"

definition dense_Mul :: "matrix \<Rightarrow> matrix \<Rightarrow> matrix \<Rightarrow> error + matrix" where
  "dense_Mul recv a b =
     (if Cols a \<noteq> Rows b then Inl ErrShape
      else if \<not> reuseAs recv (Rows a) (Cols b) then Inl ErrShape
      else Inr (mat_mul a b))"

definition mat_elementwise :: "(float64 \<Rightarrow> float64 \<Rightarrow> float64) \<Rightarrow> matrix \<Rightarrow> matrix \<Rightarrow> matrix" where
  "mat_elementwise op a b =
     \<lparr>Rows = Rows a, Cols = Cols a, At = (\<lambda>i j. op (At a i j) (At b i j))\<rparr>"

definition dense_elementwise ::
  "(float64 \<Rightarrow> float64 \<Rightarrow> float64) \<Rightarrow> matrix \<Rightarrow> matrix \<Rightarrow> matrix \<Rightarrow> error + matrix" where
  "dense_elementwise op recv a b =
     (if Rows a \<noteq> Rows b \<or> Cols a \<noteq> Cols b then Inl ErrShape
      else if \<not> reuseAs recv (Rows a) (Cols a) then Inl ErrShape
      else Inr (mat_elementwise op a b))"

definition dense_Add :: "matrix \<Rightarrow> matrix \<Rightarrow> matrix \<Rightarrow> error + matrix" where
  "dense_Add = dense_elementwise f_add"

definition dense_Sub :: "matrix \<Rightarrow> matrix \<Rightarrow> matrix \<Rightarrow> error + matrix" where
  "dense_Sub = dense_elementwise f_sub"

definition dense_MulElem :: "matrix \<Rightarrow> matrix \<Rightarrow> matrix \<Rightarrow> error + matrix" where
  "dense_MulElem = dense_elementwise f_mul"

definition dense_Clone :: "matrix \<Rightarrow> matrix" where
  "dense_Clone a = \<lparr>Rows = Rows a, Cols = Cols a, At = At a\<rparr>"

definition elements :: "matrix \<Rightarrow> float64 list" where
  "elements m = concat (to_rows m)"

definition dense_Apply :: "(float64 \<Rightarrow> error + float64) \<Rightarrow> matrix \<Rightarrow> matrix \<Rightarrow> error + matrix" where
  "dense_Apply fn recv a =
     (if \<not> reuseAs recv (Rows a) (Cols a) then Inl ErrShape
      else (case List.find isl (map fn (elements a)) of
              Some (Inl e) \<Rightarrow> Inl e
            | _ \<Rightarrow> Inr \<lparr>Rows = Rows a, Cols = Cols a,
                        At = (\<lambda>i j. case fn (At a i j) of Inr v \<Rightarrow> v | Inl _ \<Rightarrow> At a i j)\<rparr>))"

definition panicIfNaN :: "float64 \<Rightarrow> error + float64" where
  "panicIfNaN v = (if IsNaN v then Inl (Panic ''NaN'') else Inr v)"

section \<open>External collaborators\<close>

text \<open>
  The activations of package \<open>linear_model\<close> are stateless values behind the interface
  \<open>lm.Activation\<close>; the constructors are the four implementations the package comment
  names. Their methods, the registries \<open>lm.Activations\<close>, \<open>base.Solvers\<close> and
  \<open>lm.LossFunctions\<close>, the optimizer's \<open>GetUpdate\<close> and the random source are fields of
  the record \<open>ext\<close>: every theorem below holds for each implementation of them.
  \<^item> \<open>'o\<close> is the state of an optimizer instance; a creator is the instance it returns,
    and \<open>None\<close> is the nil function value;
  \<^item> \<open>'r\<close> is the state of the global random source of \<open>math/rand\<close>;
  \<^item> a loss function returns the loss and the contents it leaves in the diff and the
    gradient buffers it was handed.
\<close>

datatype activation = Identity | Logistic | Tanh | ReLU

type_synonym lossFunc =
  "matrix \<Rightarrow> matrix \<Rightarrow> matrix \<Rightarrow> matrix \<Rightarrow> matrix \<Rightarrow> matrix \<Rightarrow> float64 \<Rightarrow> float64 \<Rightarrow> nat
    \<Rightarrow> activation option \<Rightarrow> float64 \<times> matrix \<times> matrix"

record ('o, 'r) ext =
  act_F :: "activation \<Rightarrow> float64 \<Rightarrow> float64"
  act_Fprime :: "activation \<Rightarrow> float64 \<Rightarrow> float64"
  Activations :: "string \<Rightarrow> activation option"
  Solvers :: "string \<Rightarrow> 'o option"
  LossFunctions :: "string \<Rightarrow> lossFunc option"
  GetUpdate :: "'o \<Rightarrow> matrix \<Rightarrow> matrix \<Rightarrow> 'o \<times> matrix"
  rand_Float64 :: "'r \<Rightarrow> float64 \<times> 'r"
  rand_Intn :: "'r \<Rightarrow> nat \<Rightarrow> nat \<times> 'r"

definition permute_rows :: "(nat \<Rightarrow> nat) \<Rightarrow> matrix \<Rightarrow> matrix" where
  "permute_rows p m = \<lparr>Rows = Rows m, Cols = Cols m, At = (\<lambda>i j. At m (p i) j)\<rparr>"

definition swap_index :: "nat \<Rightarrow> nat \<Rightarrow> nat \<Rightarrow> nat" where
  "swap_index i j r = (if r = i then j else if r = j then i else r)"

definition swap_rows :: "nat \<Rightarrow> nat \<Rightarrow> matrix \<Rightarrow> matrix" where
  "swap_rows i j m = permute_rows (swap_index i j) m"

text \<open>
  Modelled from the spec: \<open>base.DenseShuffle\<close> belongs to package \<open>base\<close>. It is the
  paired shuffling of inputs and targets, a correlated row permutation, in place. The model
  builds it the way the shuffles of Go are built: for \<open>i\<close> from the last row down to row 1,
  one number \<open>j\<close> among \<open>0, ..., i\<close> is drawn (\<open>rand.Intn (i + 1)\<close>, kept below its bound
  by the remainder) and rows \<open>i\<close> and \<open>j\<close> are exchanged in both matrices. Whatever the
  source draws, both matrices undergo the same permutation of their rows.
\<close>

fun shuffle_loop ::
  "('o, 'r) ext \<Rightarrow> nat \<Rightarrow> 'r \<times> matrix \<times> matrix \<Rightarrow> 'r \<times> matrix \<times> matrix" where
  "shuffle_loop ext 0 s = s"
| "shuffle_loop ext (Suc i) (rng, X, Y) =
     (case rand_Intn ext rng (Suc (Suc i)) of
        (j, rng1) \<Rightarrow>
          shuffle_loop ext i
            (rng1, swap_rows (Suc i) (j mod Suc (Suc i)) X, swap_rows (Suc i) (j mod Suc (Suc i)) Y))"

definition DenseShuffle :: "('o, 'r) ext \<Rightarrow> 'r \<Rightarrow> matrix \<Rightarrow> matrix \<Rightarrow> 'r \<times> matrix \<times> matrix" where
  "DenseShuffle ext rng X Y = shuffle_loop ext (Rows X - 1) (rng, X, Y)"

section \<open>Layers\<close>

text \<open>
  The five buffers of a layer are pointers that \<open>NewLayer\<close> leaves nil: \<open>None\<close> is nil.
  The embedded \<open>Activation\<close> is an interface value, nil when the registry did not know
  the name.
\<close>

record 'o Layer =
  Activation :: "activation option"
  Theta :: matrix
  Ytrue :: "matrix option"
  Ypred :: "matrix option"
  Ydiff :: "matrix option"
  Grad :: "matrix option"
  Update :: "matrix option"
  Optimizer :: 'o

definition deref :: "'a option \<Rightarrow> error + 'a" where
  "deref p = (case p of None \<Rightarrow> Inl NilPointer | Some v \<Rightarrow> Inr v)"

fun for_each :: "('i \<Rightarrow> 's \<Rightarrow> error + 's) \<Rightarrow> 'i list \<Rightarrow> 's \<Rightarrow> error + 's" where
  "for_each body [] s = Inr s"
| "for_each body (i # is) s =
     (case body i s of Inl e \<Rightarrow> Inl e | Inr s' \<Rightarrow> for_each body is s')"

fun rand_draws :: "('r \<Rightarrow> float64 \<times> 'r) \<Rightarrow> nat \<Rightarrow> 'r \<Rightarrow> float64 list \<times> 'r" where
  "rand_draws gen 0 rng = ([], rng)"
| "rand_draws gen (Suc n) rng =
     (let (v, rng1) = gen rng; (vs, rng2) = rand_draws gen n rng1 in (v # vs, rng2))"

text \<open>
  \<open>NewLayer\<close>: \<open>Theta.Apply\<close> visits the elements row by row and draws one number for
  each, so element \<open>(i, j)\<close> is 0.01 times draw number \<open>i * outputs + j\<close>.
\<close>

definition NewLayer ::
  "('o, 'r) ext \<Rightarrow> 'r \<Rightarrow> int \<Rightarrow> int \<Rightarrow> activation option \<Rightarrow> 'o \<Rightarrow> error + ('r \<times> 'o Layer)" where
  "NewLayer ext rng inputs outputs activation optimizer =
     (case NewDense inputs outputs of
        Inl e \<Rightarrow> Inl e
      | Inr Theta0 \<Rightarrow>
          (let (vs, rng1) = rand_draws (rand_Float64 ext) (Rows Theta0 * Cols Theta0) rng;
               Theta1 = \<lparr>Rows = Rows Theta0, Cols = Cols Theta0,
                         At = (\<lambda>i j. f_mul (Fin (1 / 100)) (vs ! (i * Cols Theta0 + j)))\<rparr>
           in Inr (rng1, \<lparr>Activation = activation, Theta = Theta1, Ytrue = None, Ypred = None,
                           Ydiff = None, Grad = None, Update = None, Optimizer = optimizer\<rparr>)))"

definition Init :: "'o Layer \<Rightarrow> int \<Rightarrow> int \<Rightarrow> error + 'o Layer" where
  "Init L samples inputs =
     (let outputs = int (Cols (Theta L)) in
      case NewDense samples outputs of
        Inl e \<Rightarrow> Inl e
      | Inr b \<Rightarrow>
          (case NewDense (1 + inputs) outputs of
             Inl e \<Rightarrow> Inl e
           | Inr g \<Rightarrow> Inr (L\<lparr>Ypred := Some b, Ytrue := Some b, Ydiff := Some b,
                              Grad := Some g, Update := Some g\<rparr>)))"

section \<open>The regressor\<close>

record 'o MLPRegressor =
  regr_Optimizer :: "'o option"
  LossName :: string
  regr_Activation :: "activation option"
  HiddenLayerSizes :: "int list"
  Layers :: "'o Layer list"
  Alpha :: float64
  L1Ratio :: float64
  Epochs :: int
  MiniBatchSize :: int
  Loss :: string
  JFirst :: float64
  J :: float64

definition NewMLPRegressor ::
  "('o, 'r) ext \<Rightarrow> int list \<Rightarrow> string \<Rightarrow> string \<Rightarrow> float64 \<Rightarrow> 'o MLPRegressor" where
  "NewMLPRegressor ext hiddenLayerSizes activation solver alpha =
     (let activation1 = (if activation = '''' then ''relu'' else activation);
          solver1 = (if solver = '''' then ''adam'' else solver)
      in \<lparr>regr_Optimizer = Solvers ext solver1, LossName = '''',
           regr_Activation = Activations ext activation1,
           HiddenLayerSizes = hiddenLayerSizes, Layers = [], Alpha = alpha, L1Ratio = Fin 0,
           Epochs = 0, MiniBatchSize = 0, Loss = ''square'', JFirst = Fin 0, J = Fin 0\<rparr>)"

definition NewMLPClassifier ::
  "('o, 'r) ext \<Rightarrow> int list \<Rightarrow> string \<Rightarrow> string \<Rightarrow> float64 \<Rightarrow> 'o MLPRegressor" where
  "NewMLPClassifier ext hiddenLayerSizes activation solver alpha =
     (NewMLPRegressor ext hiddenLayerSizes activation solver alpha)\<lparr>Loss := ''log''\<rparr>"

subsection \<open>Predict\<close>

text \<open>
  One turn of the loop of \<open>Predict\<close>, for layer \<open>l\<close>. The input of layer 0 is \<open>X\<close>, the
  input of a later layer is the prediction buffer of the layer before; \<open>forward_layer\<close> is
  what the turn does to the layer itself.
\<close>

definition layer_input :: "matrix \<Rightarrow> 'o Layer list \<Rightarrow> nat \<Rightarrow> error + matrix" where
  "layer_input X layers l = (if l = 0 then Inr X else deref (Ypred (layers ! (l - 1))))"

definition forward_layer :: "('o, 'r) ext \<Rightarrow> matrix \<Rightarrow> 'o Layer \<Rightarrow> error + 'o Layer" where
  "forward_layer ext Xl L0 =
     (case (if Ypred L0 = None then Init L0 (int (Rows Xl)) (int (Cols Xl)) else Inr L0) of
        Inl e \<Rightarrow> Inl e
      | Inr L \<Rightarrow>
     (case Ypred L of
        None \<Rightarrow> Inl (Panic ''L.Ypred == nil'')
      | Some yp \<Rightarrow>
     (case dense_Mul yp (onesAddedMat Xl) (Theta L) of
        Inl e \<Rightarrow> Inl e
      | Inr yp1 \<Rightarrow>
     (case Activation L of
        None \<Rightarrow> Inl NilPointer
      | Some a \<Rightarrow>
     (case dense_Apply panicIfNaN (dense_Clone (appliedMat yp1 (act_F ext a)))
                                  (dense_Clone (appliedMat yp1 (act_F ext a))) of
        Inl e \<Rightarrow> Inl e
      | Inr yp3 \<Rightarrow> Inr (L\<lparr>Ypred := Some yp3\<rparr>))))))"

definition predict_layer ::
  "('o, 'r) ext \<Rightarrow> matrix \<Rightarrow> nat \<Rightarrow> 'o Layer list \<Rightarrow> error + 'o Layer list" where
  "predict_layer ext X l layers =
     (case layer_input X layers l of
        Inl e \<Rightarrow> Inl e
      | Inr Xl \<Rightarrow>
          (case forward_layer ext Xl (layers ! l) of
             Inl e \<Rightarrow> Inl e
           | Inr L \<Rightarrow> Inr (layers[l := L])))"

definition Predict ::
  "('o, 'r) ext \<Rightarrow> 'o MLPRegressor \<Rightarrow> matrix \<Rightarrow> matrix option
    \<Rightarrow> error + ('o MLPRegressor \<times> matrix option)" where
  "Predict ext regr X Y =
     (case for_each (predict_layer ext X) [0..<length (Layers regr)] (Layers regr) of
        Inl e \<Rightarrow> Inl e
      | Inr layers \<Rightarrow>
          (case Y of
             None \<Rightarrow> Inr (regr\<lparr>Layers := layers\<rparr>, None)
           | Some y \<Rightarrow>
               if layers = [] then Inl IndexOutOfRange
               else (case Ypred (last layers) of
                       None \<Rightarrow> Inl NilPointer
                     | Some yp \<Rightarrow> Inr (regr\<lparr>Layers := layers\<rparr>, Some (dense_Clone yp)))))"

definition Score :: "'o MLPRegressor \<Rightarrow> matrix \<Rightarrow> matrix \<Rightarrow> float64" where
  "Score regr X Y = Fin 0"

subsection \<open>Fit\<close>

text \<open>
  The first part of \<open>Fit\<close>: the layer list is emptied and rebuilt from
  \<open>HiddenLayerSizes\<close> and the width of \<open>Y\<close>. The state of the loop over the hidden sizes is
  the random source, the layers so far and \<open>prevOutputs\<close>.
\<close>

definition add_hidden_layer ::
  "('o, 'r) ext \<Rightarrow> 'o MLPRegressor \<Rightarrow> int \<Rightarrow> 'r \<times> 'o Layer list \<times> int
    \<Rightarrow> error + ('r \<times> 'o Layer list \<times> int)" where
  "add_hidden_layer ext regr outputs s =
     (case s of (rng, layers, prevOutputs) \<Rightarrow>
        (case regr_Optimizer regr of
           None \<Rightarrow> Inl NilPointer
         | Some opt \<Rightarrow>
             (case NewLayer ext rng (1 + prevOutputs) outputs (regr_Activation regr) opt of
                Inl e \<Rightarrow> Inl e
              | Inr (rng1, L) \<Rightarrow> Inr (rng1, layers @ [L], outputs))))"

definition lastActivation :: "'o MLPRegressor \<Rightarrow> activation option" where
  "lastActivation regr =
     (if LossName regr = ''cross-entropy'' \<or> LossName regr = ''log''
      then Some Logistic else regr_Activation regr)"

definition adjust_first_layer ::
  "('o, 'r) ext \<Rightarrow> 'o MLPRegressor \<Rightarrow> nat \<Rightarrow> 'r \<times> 'o Layer list \<Rightarrow> error + ('r \<times> 'o Layer list)" where
  "adjust_first_layer ext regr nFeatures s =
     (case s of (rng, layers) \<Rightarrow>
        if Rows (Theta (layers ! 0)) \<noteq> nFeatures + 1 then
          (case regr_Optimizer regr of
             None \<Rightarrow> Inl NilPointer
           | Some opt \<Rightarrow>
               (case NewLayer ext rng (1 + int nFeatures) (int (Cols (Theta (layers ! 0))))
                              (Activation (layers ! 0)) opt of
                  Inl e \<Rightarrow> Inl e
                | Inr (rng1, L) \<Rightarrow> Inr (rng1, layers[0 := L])))
        else Inr (rng, layers))"

definition adjust_output_layer ::
  "('o, 'r) ext \<Rightarrow> 'o MLPRegressor \<Rightarrow> matrix \<Rightarrow> 'r \<times> 'o Layer list \<Rightarrow> error + ('r \<times> 'o Layer list)" where
  "adjust_output_layer ext regr Y s =
     (case s of (rng, layers) \<Rightarrow>
        (let outputLayer = length layers - 1 in
         if Cols Y \<noteq> Cols (Theta (layers ! outputLayer)) then
           (case regr_Optimizer regr of
              None \<Rightarrow> Inl NilPointer
            | Some opt \<Rightarrow>
                (case NewLayer ext rng (int (Rows (Theta (layers ! outputLayer)))) (int (Cols Y))
                               (Activation (layers ! 0)) opt of
                   Inl e \<Rightarrow> Inl e
                 | Inr (rng1, L) \<Rightarrow> Inr (rng1, layers[outputLayer := L])))
         else Inr (rng, layers)))"

definition create_layers ::
  "('o, 'r) ext \<Rightarrow> 'r \<Rightarrow> 'o MLPRegressor \<Rightarrow> matrix \<Rightarrow> matrix \<Rightarrow> error + ('r \<times> 'o Layer list)" where
  "create_layers ext rng regr X Y =
     (case for_each (add_hidden_layer ext regr) (HiddenLayerSizes regr) (rng, [], int (Cols X)) of
        Inl e \<Rightarrow> Inl e
      | Inr (rng1, layers1, prevOutputs) \<Rightarrow>
     (case regr_Optimizer regr of
        None \<Rightarrow> Inl NilPointer
      | Some opt \<Rightarrow>
     (case NewLayer ext rng1 (1 + prevOutputs) (int (Cols Y)) (lastActivation regr) opt of
        Inl e \<Rightarrow> Inl e
      | Inr (rng2, L) \<Rightarrow>
     (case adjust_first_layer ext regr (Cols X) (rng2, layers1 @ [L]) of
        Inl e \<Rightarrow> Inl e
      | Inr s3 \<Rightarrow> adjust_output_layer ext regr Y s3))))"

text \<open>
  The backward pass. \<open>backward_Ydiff\<close> is the branch that computes the targets and the diff
  of layer \<open>l\<close>; \<open>backward_layer\<close> is the whole body of the loop over the layers: input of the
  layer, targets and diff, loss and gradient, update from the gradient, new weights, and the
  record of the loss when \<open>l\<close> is the output layer.
\<close>

definition backward_Ydiff ::
  "('o, 'r) ext \<Rightarrow> matrix \<Rightarrow> nat \<Rightarrow> nat \<Rightarrow> 'o Layer list \<Rightarrow> error + 'o Layer list" where
  "backward_Ydiff ext Y outputLayer l layers =
     (let L = layers ! l in
      if l = outputLayer then
        (case Ytrue L of None \<Rightarrow> Inl NilPointer | Some yt \<Rightarrow>
        (case Ydiff L of None \<Rightarrow> Inl NilPointer | Some yd \<Rightarrow>
        (case Ypred L of None \<Rightarrow> Inl NilPointer | Some yp \<Rightarrow>
        (case dense_Sub yd yp Y of
           Inl e \<Rightarrow> Inl e
         | Inr yd1 \<Rightarrow> Inr (layers[l := L\<lparr>Ytrue := Some (dense_Clone Y), Ydiff := Some yd1\<rparr>])))))
      else
        (let nextLayer = layers ! (l + 1) in
         case Ydiff L of None \<Rightarrow> Inl NilPointer | Some yd \<Rightarrow>
        (case Ydiff nextLayer of None \<Rightarrow> Inl NilPointer | Some ydn \<Rightarrow>
        (case dense_Mul yd ydn (firstColumnRemovedMat (T_mat (Theta nextLayer))) of
           Inl e \<Rightarrow> Inl e
         | Inr yd1 \<Rightarrow>
        (case Ypred L of None \<Rightarrow> Inl NilPointer | Some yp \<Rightarrow>
        (case Activation L of None \<Rightarrow> Inl NilPointer | Some a \<Rightarrow>
        (case dense_MulElem yd1 yd1 (appliedMat yp (act_Fprime ext a)) of
           Inl e \<Rightarrow> Inl e
         | Inr yd2 \<Rightarrow>
        (case Ytrue L of None \<Rightarrow> Inl NilPointer | Some yt \<Rightarrow>
        (case dense_Sub yt yp yd2 of
           Inl e \<Rightarrow> Inl e
         | Inr yt1 \<Rightarrow> Inr (layers[l := L\<lparr>Ytrue := Some yt1, Ydiff := Some yd2\<rparr>]))))))))))"

definition backward_layer ::
  "('o, 'r) ext \<Rightarrow> lossFunc option \<Rightarrow> matrix \<Rightarrow> matrix \<Rightarrow> nat \<Rightarrow> nat \<Rightarrow> nat \<Rightarrow> nat
    \<Rightarrow> 'o MLPRegressor \<Rightarrow> error + 'o MLPRegressor" where
  "backward_layer ext lossF X Y outputLayer nSamples epoch l regr =
     (case layer_input X (Layers regr) l of
        Inl e \<Rightarrow> Inl e
      | Inr Xl \<Rightarrow>
     (case backward_Ydiff ext Y outputLayer l (Layers regr) of
        Inl e \<Rightarrow> Inl e
      | Inr layers1 \<Rightarrow>
     (let L = layers1 ! l in
      case lossF of None \<Rightarrow> Inl NilPointer | Some lf \<Rightarrow>
     (case Ytrue L of None \<Rightarrow> Inl NilPointer | Some yt \<Rightarrow>
     (case Ypred L of None \<Rightarrow> Inl NilPointer | Some yp \<Rightarrow>
     (case Ydiff L of None \<Rightarrow> Inl NilPointer | Some yd \<Rightarrow>
     (case Grad L of None \<Rightarrow> Inl NilPointer | Some g \<Rightarrow>
     (case lf yt (onesAddedMat Xl) (Theta L) yp yd g (Alpha regr) (L1Ratio regr) nSamples
              (Activation L) of (Jl, yd1, g1) \<Rightarrow>
     (case Update L of None \<Rightarrow> Inl NilPointer | Some u \<Rightarrow>
     (case GetUpdate ext (Optimizer L) u g1 of (opt1, u1) \<Rightarrow>
     (case dense_Add (Theta L) (Theta L) u1 of
        Inl e \<Rightarrow> Inl e
      | Inr theta1 \<Rightarrow>
     (let L1 = L\<lparr>Theta := theta1, Ydiff := Some yd1, Grad := Some g1, Update := Some u1,
                  Optimizer := opt1\<rparr>;
          regr1 = regr\<lparr>Layers := layers1[l := L1]\<rparr>
      in Inr (if l = outputLayer
              then (if epoch = 1 then regr1\<lparr>J := Jl, JFirst := Jl\<rparr> else regr1\<lparr>J := Jl\<rparr>)
              else regr1)))))))))))))"

record ('o, 'r) fit_state =
  st_rng :: 'r
  st_regr :: "'o MLPRegressor"
  st_X :: matrix
  st_Y :: matrix

definition fit_epoch ::
  "('o, 'r) ext \<Rightarrow> lossFunc option \<Rightarrow> nat \<Rightarrow> nat \<Rightarrow> nat \<Rightarrow> ('o, 'r) fit_state
    \<Rightarrow> error + ('o, 'r) fit_state" where
  "fit_epoch ext lossF outputLayer nSamples epoch st =
     (case DenseShuffle ext (st_rng st) (st_X st) (st_Y st) of (rng1, X1, Y1) \<Rightarrow>
     (case Predict ext (st_regr st) X1 None of
        Inl e \<Rightarrow> Inl e
      | Inr (regr1, _) \<Rightarrow>
     (case for_each (backward_layer ext lossF X1 Y1 outputLayer nSamples epoch)
                    (rev [0..<Suc outputLayer]) regr1 of
        Inl e \<Rightarrow> Inl e
      | Inr regr2 \<Rightarrow> Inr \<lparr>st_rng = rng1, st_regr = regr2, st_X = X1, st_Y = Y1\<rparr>)))"

text \<open>
  \<open>Fit\<close> shuffles \<open>X\<close> and \<open>Y\<close> in place and draws from the global random source, so the
  result holds the regressor, both matrices and the random source as the call leaves them.
\<close>

definition Fit ::
  "('o, 'r) ext \<Rightarrow> 'r \<Rightarrow> 'o MLPRegressor \<Rightarrow> matrix \<Rightarrow> matrix \<Rightarrow> error + ('o, 'r) fit_state" where
  "Fit ext rng regr X Y =
     (case create_layers ext rng regr X Y of
        Inl e \<Rightarrow> Inl e
      | Inr (rng1, layers) \<Rightarrow>
          (let outputLayer = length layers - 1;
               epochs = (if Epochs regr \<le> 0 then 100 else Epochs regr);
               regr1 = regr\<lparr>Layers := layers, Epochs := epochs\<rparr>
           in for_each (fit_epoch ext (LossFunctions ext (Loss regr)) outputLayer (Rows X))
                       [0..<nat epochs]
                       \<lparr>st_rng = rng1, st_regr = regr1, st_X = X, st_Y = Y\<rparr>))"

section \<open>Stand-ins for the external packages\<close>

text \<open>
  To run the driver on concrete inputs, the external packages are given simple
  implementations: identity and rectifier with their usual formulas, rational functions of
  the right range and slope in place of the logistic function and the hyperbolic tangent
  (\<open>Fprime\<close> in terms of the output), plain gradient descent with rate 1/10 whose state
  counts the calls, one loss for the three names (half the mean of the squared diff, the
  gradient being the mean of input times diff; it leaves the diff as it found it), a random
  source whose state counts the draws and whose bounded draws are all 0 (so that a shuffle
  of two rows exchanges them). No theorem
  about the driver depends on them, only the closed examples.
\<close>

fun F0 :: "activation \<Rightarrow> float64 \<Rightarrow> float64" where
  "F0 Identity x = x"
| "F0 ReLU (Fin a) = Fin (max 0 a)"
| "F0 ReLU PInf = PInf"
| "F0 ReLU NInf = Fin 0"
| "F0 Logistic (Fin a) = Fin (1 / 2 + a / (2 * (1 + \<bar>a\<bar>)))"
| "F0 Logistic PInf = Fin 1"
| "F0 Logistic NInf = Fin 0"
| "F0 Tanh (Fin a) = Fin (a / (1 + \<bar>a\<bar>))"
| "F0 Tanh PInf = Fin 1"
| "F0 Tanh NInf = Fin (- 1)"
| "F0 a NaN = NaN"

fun Fprime0 :: "activation \<Rightarrow> float64 \<Rightarrow> float64" where
  "Fprime0 Identity y = Fin 1"
| "Fprime0 ReLU (Fin a) = (if 0 < a then Fin 1 else Fin 0)"
| "Fprime0 ReLU PInf = Fin 1"
| "Fprime0 ReLU NInf = Fin 0"
| "Fprime0 Logistic (Fin a) = Fin ((1 - \<bar>2 * a - 1\<bar>) * (1 - \<bar>2 * a - 1\<bar>) / 2)"
| "Fprime0 Tanh (Fin a) = Fin ((1 - \<bar>a\<bar>) * (1 - \<bar>a\<bar>))"
| "Fprime0 a y = NaN"

definition Activations0 :: "string \<Rightarrow> activation option" where
  "Activations0 name =
     (if name = ''identity'' then Some Identity
      else if name = ''logistic'' then Some Logistic
      else if name = ''tanh'' then Some Tanh
      else if name = ''relu'' then Some ReLU
      else None)"

definition Solvers0 :: "string \<Rightarrow> nat option" where
  "Solvers0 name = (if name = ''sgd'' \<or> name = ''adam'' then Some 0 else None)"

definition GetUpdate0 :: "nat \<Rightarrow> matrix \<Rightarrow> matrix \<Rightarrow> nat \<times> matrix" where
  "GetUpdate0 n u g =
     (Suc n, \<lparr>Rows = Rows g, Cols = Cols g, At = (\<lambda>i j. f_mul (Fin (- (1 / 10))) (At g i j))\<rparr>)"

definition mean_grad :: "nat \<Rightarrow> matrix \<Rightarrow> matrix \<Rightarrow> matrix" where
  "mean_grad n X yd =
     \<lparr>Rows = Cols X, Cols = Cols yd,
      At = (\<lambda>i j. f_mul (Fin (1 / real n)) (dot (Rows X) (\<lambda>k. At X k i) (\<lambda>k. At yd k j)))\<rparr>"

definition sum_elements :: "matrix \<Rightarrow> float64" where
  "sum_elements m = foldl f_add (Fin 0) (elements m)"

definition Loss0 :: lossFunc where
  "Loss0 yt X theta yp yd g alpha l1ratio n a =
     (f_mul (Fin (1 / (2 * real n)))
            (sum_elements \<lparr>Rows = Rows yd, Cols = Cols yd, At = (\<lambda>i j. f_mul (At yd i j) (At yd i j))\<rparr>),
      yd, mean_grad n X yd)"

definition LossFunctions0 :: "string \<Rightarrow> lossFunc option" where
  "LossFunctions0 name =
     (if name = ''square'' \<or> name = ''log'' \<or> name = ''cross-entropy'' then Some Loss0 else None)"

definition ext0 :: "(nat, nat) ext" where
  "ext0 = \<lparr>act_F = F0, act_Fprime = Fprime0, Activations = Activations0, Solvers = Solvers0,
           LossFunctions = LossFunctions0, GetUpdate = GetUpdate0,
           rand_Float64 = (\<lambda>n. (if even n then Fin (1 / 2) else Fin (1 / 4), Suc n)),
           rand_Intn = (\<lambda>n k. (0, Suc n))\<rparr>"

section \<open>Concrete runs\<close>

text \<open>
  Two samples of one feature and one target; a regressor without hidden layer and one with
  a hidden layer of width 1, both with the identity activation and gradient descent.
\<close>

definition X_ex :: matrix where
  "X_ex = of_rows [[Fin 1], [Fin 2]]"

definition Y_ex :: matrix where
  "Y_ex = of_rows [[Fin 3], [Fin 5]]"

definition regr_ex :: "nat MLPRegressor" where
  "regr_ex = NewMLPRegressor ext0 [] ''identity'' ''sgd'' (Fin 0)"

definition regr_hidden_ex :: "nat MLPRegressor" where
  "regr_hidden_ex = NewMLPRegressor ext0 [1] ''identity'' ''sgd'' (Fin 0)"

definition weights_of :: "'o MLPRegressor \<Rightarrow> float64 list list list" where
  "weights_of regr = map (\<lambda>L. to_rows (Theta L)) (Layers regr)"

definition buffer_rows :: "matrix option \<Rightarrow> float64 list list option" where
  "buffer_rows b = map_option to_rows b"

definition and_then :: "error + 'a \<Rightarrow> ('a \<Rightarrow> error + 'b) \<Rightarrow> error + 'b" where
  "and_then r f = (case r of Inl e \<Rightarrow> Inl e | Inr v \<Rightarrow> f v)"

definition on_result :: "('a \<Rightarrow> 'b) \<Rightarrow> error + 'a \<Rightarrow> error + 'b" where
  "on_result f r = (case r of Inl e \<Rightarrow> Inl e | Inr v \<Rightarrow> Inr (f v))"

definition predictions_of :: "'o MLPRegressor \<Rightarrow> float64 list list option list" where
  "predictions_of regr = map (\<lambda>L. buffer_rows (Ypred L)) (Layers regr)"

definition activations_of :: "'o MLPRegressor \<Rightarrow> activation option list" where
  "activations_of regr = map Activation (Layers regr)"

text \<open>A second call of \<open>Fit\<close> on what a first call has left.\<close>

definition refit :: "(nat, nat) fit_state \<Rightarrow> error + (nat, nat) fit_state" where
  "refit st = Fit ext0 (st_rng st) (st_regr st) (st_X st) (st_Y st)"

definition recreate :: "(nat, nat) fit_state \<Rightarrow> error + (nat \<times> nat Layer list)" where
  "recreate st = create_layers ext0 (st_rng st) (st_regr st) (st_X st) (st_Y st)"

definition no_NaN :: "matrix \<Rightarrow> bool" where
  "no_NaN m = list_all (\<lambda>v. \<not> IsNaN v) (elements m)"

text \<open>
  The value the forward pass leaves in the prediction buffer of a layer with weights
  \<open>theta\<close> and activation \<open>a\<close> on input \<open>Xl\<close>, and the layers on which a further turn of the
  loop of \<open>Predict\<close> changes nothing.
\<close>

definition prediction :: "('o, 'r) ext \<Rightarrow> matrix \<Rightarrow> matrix \<Rightarrow> activation \<Rightarrow> matrix" where
  "prediction ext Xl theta a =
     dense_Clone (appliedMat (mat_mul (onesAddedMat Xl) theta) (act_F ext a))"

definition forward_fixed :: "('o, 'r) ext \<Rightarrow> matrix \<Rightarrow> 'o Layer list \<Rightarrow> nat \<Rightarrow> bool" where
  "forward_fixed ext X layers l =
     (case layer_input X layers l of
        Inl e \<Rightarrow> False
      | Inr Xl \<Rightarrow> forward_layer ext Xl (layers ! l) = Inr (layers ! l))"

text \<open>A regressor whose single layer has the weights 1/2 (bias) and 1/4, nothing allocated.\<close>

definition net_ex :: "nat MLPRegressor" where
  "net_ex = regr_ex\<lparr>Layers :=
     [\<lparr>Activation = Some Identity, Theta = of_rows [[Fin (1 / 2)], [Fin (1 / 4)]],
       Ytrue = None, Ypred = None, Ydiff = None, Grad = None, Update = None, Optimizer = 0\<rparr>]\<rparr>"


text \<open>
  The diff of an interior layer as the backward pass computes it from the diff \<open>ydn\<close> and
  the weights \<open>theta\<close> of the next layer, and the stages of one epoch on the network with
  a hidden unit: after the forward pass, after the diff of the output layer, and after the
  whole turn of the output layer.
\<close>

definition interior_diff :: "('o, 'r) ext \<Rightarrow> matrix \<Rightarrow> matrix \<Rightarrow> matrix \<Rightarrow> activation \<Rightarrow> matrix" where
  "interior_diff ext ydn theta yp a =
     mat_elementwise f_mul (mat_mul ydn (firstColumnRemovedMat (T_mat theta)))
       (appliedMat yp (act_Fprime ext a))"






text \<open>
  What an epoch does to the random source and the two data matrices, and the part of the
  state of \<open>Fit\<close> it acts on.
\<close>

definition shuffle_step :: "('o, 'r) ext \<Rightarrow> 'r \<times> matrix \<times> matrix \<Rightarrow> 'r \<times> matrix \<times> matrix" where
  "shuffle_step ext s = (case s of (rng, X, Y) \<Rightarrow> DenseShuffle ext rng X Y)"

definition data_of :: "('o, 'r) fit_state \<Rightarrow> 'r \<times> matrix \<times> matrix" where
  "data_of st = (st_rng st, st_X st, st_Y st)"

text \<open>
  The shape invariant of a layer with \<open>inputs\<close> inputs for batches of \<open>samples\<close> rows, the
  outputs being the columns of the weights; the width of the input of layer \<open>l\<close> in a
  network fed with \<open>nFeatures\<close> features; and the invariant for all layers of a network.
\<close>

definition has_shape :: "matrix option \<Rightarrow> nat \<Rightarrow> nat \<Rightarrow> bool" where
  "has_shape b r c = (case b of None \<Rightarrow> False | Some m \<Rightarrow> Rows m = r \<and> Cols m = c)"

definition layer_shapes :: "nat \<Rightarrow> nat \<Rightarrow> 'o Layer \<Rightarrow> bool" where
  "layer_shapes samples inputs L =
     (Rows (Theta L) = 1 + inputs
      \<and> has_shape (Ypred L) samples (Cols (Theta L))
      \<and> has_shape (Ytrue L) samples (Cols (Theta L))
      \<and> has_shape (Ydiff L) samples (Cols (Theta L))
      \<and> has_shape (Grad L) (1 + inputs) (Cols (Theta L))
      \<and> has_shape (Update L) (1 + inputs) (Cols (Theta L)))"

definition input_width :: "nat \<Rightarrow> 'o Layer list \<Rightarrow> nat \<Rightarrow> nat" where
  "input_width nFeatures layers l =
     (if l = 0 then nFeatures else Cols (Theta (layers ! (l - 1))))"

definition net_shapes :: "nat \<Rightarrow> nat \<Rightarrow> 'o Layer list \<Rightarrow> bool" where
  "net_shapes samples nFeatures layers =
     list_all (\<lambda>l. layer_shapes samples (input_width nFeatures layers l) (layers ! l))
       [0..<length layers]"

definition unallocated_or_shaped :: "nat \<Rightarrow> 'o Layer list \<Rightarrow> bool" where
  "unallocated_or_shaped samples layers =
     list_all (\<lambda>L. Ypred L = None \<or> layer_shapes samples (Rows (Theta L) - 1) L) layers"

text \<open>
  What the invariant asks of the external packages: a loss function handed a diff and a
  gradient buffer of the shapes of the invariant leaves them with these shapes (as the
  methods of \<open>*mat.Dense\<close> with a receiver do). Nothing is asked of the optimizer: the
  addition of its update to the weights panics unless the shapes agree.
\<close>

definition loss_contract :: "lossFunc \<Rightarrow> bool" where
  "loss_contract lf =
     (\<forall>yt Xa th yp yd g al l1 n a.
        Cols Xa = Rows th \<and> Rows yd = Rows Xa \<and> Cols yd = Cols th
          \<and> Rows g = Rows th \<and> Cols g = Cols th \<longrightarrow>
        (case lf yt Xa th yp yd g al l1 n a of
           (Jl, yd1, g1) \<Rightarrow> Rows yd1 = Rows yd \<and> Cols yd1 = Cols yd
                             \<and> Rows g1 = Rows g \<and> Cols g1 = Cols g))"

definition shape_contract :: "('o, 'r) ext \<Rightarrow> bool" where
  "shape_contract ext = (\<forall>name lf. LossFunctions ext name = Some lf \<longrightarrow> loss_contract lf)"

text \<open>
  What decides whether a turn of the forward pass returns: the layer after the allocation
  of its buffers on first use, and the conditions under which the turn for the layer
  \<open>L0\<close> on the input \<open>Xl\<close> returns the layer \<open>L'\<close>. The shapes must fit, the activation must
  not be nil, and the only condition on the values is that no prediction is \<open>NaN\<close>.
\<close>

definition allocated :: "matrix \<Rightarrow> 'o Layer \<Rightarrow> error + 'o Layer" where
  "allocated Xl L0 =
     (if Ypred L0 = None then Init L0 (int (Rows Xl)) (int (Cols Xl)) else Inr L0)"

definition forward_turn :: "('o, 'r) ext \<Rightarrow> matrix \<Rightarrow> 'o Layer \<Rightarrow> 'o Layer \<Rightarrow> bool" where
  "forward_turn ext Xl L0 L' =
     (case allocated Xl L0 of
        Inl e \<Rightarrow> False
      | Inr L \<Rightarrow>
          (case (Activation L, Ypred L) of
             (Some a, Some yp) \<Rightarrow>
               Cols (onesAddedMat Xl) = Rows (Theta L)
               \<and> reuseAs yp (Rows Xl) (Cols (Theta L))
               \<and> no_NaN (prediction ext Xl (Theta L) a)
               \<and> L' = L\<lparr>Ypred := Some (prediction ext Xl (Theta L) a)\<rparr>
           | _ \<Rightarrow> False))"

definition forward_turns :: "('o, 'r) ext \<Rightarrow> matrix \<Rightarrow> 'o Layer list \<Rightarrow> 'o Layer list \<Rightarrow> bool" where
  "forward_turns ext X layers layers' =
     (length layers' = length layers
      \<and> list_all (\<lambda>l. case layer_input X layers' l of
                         Inl e \<Rightarrow> False
                       | Inr Xl \<Rightarrow> forward_turn ext Xl (layers ! l) (layers' ! l))
           [0..<length layers])"

definition output_of :: "matrix option \<Rightarrow> 'o Layer list \<Rightarrow> (error + matrix option)" where
  "output_of Y layers =
     (case Y of
        None \<Rightarrow> Inr None
      | Some y \<Rightarrow>
          if layers = [] then Inl IndexOutOfRange
          else on_result (\<lambda>yp. Some (dense_Clone yp)) (deref (Ypred (last layers))))"

text \<open>A layer like the one of \<open>net_ex\<close> with all weights 0.\<close>

definition layer_zero_ex :: "nat Layer" where
  "layer_zero_ex =
     \<lparr>Activation = Some Identity, Theta = of_rows [[Fin 0], [Fin 0]],
      Ytrue = None, Ypred = None, Ydiff = None, Grad = None, Update = None, Optimizer = 0\<rparr>"

section \<open>Properties\<close>

subsection \<open>Score\<close>

text \<open>
  C10. \<open>Score\<close> returns 0 for every regressor and every pair of matrices: it reads none of
  its arguments and computes nothing.
\<close>

theorem Score_is_zero: "Score regr X Y = Fin 0"
  by (simp add: Score_def)

subsection \<open>Fit starts from fresh layers\<close>

lemma add_hidden_layer_Layers:
  "add_hidden_layer ext (regr\<lparr>Layers := ls\<rparr>) = add_hidden_layer ext regr"
  by (simp add: fun_eq_iff add_hidden_layer_def cong: option.case_cong sum.case_cong)

lemma adjust_first_layer_Layers:
  "adjust_first_layer ext (regr\<lparr>Layers := ls\<rparr>) = adjust_first_layer ext regr"
  by (simp add: fun_eq_iff adjust_first_layer_def cong: option.case_cong sum.case_cong)

lemma adjust_output_layer_Layers:
  "adjust_output_layer ext (regr\<lparr>Layers := ls\<rparr>) = adjust_output_layer ext regr"
  by (simp add: fun_eq_iff adjust_output_layer_def Let_def
      cong: option.case_cong sum.case_cong)

lemma create_layers_Layers:
  "create_layers ext rng (regr\<lparr>Layers := ls\<rparr>) X Y = create_layers ext rng regr X Y"
  by (simp add: create_layers_def add_hidden_layer_Layers adjust_first_layer_Layers
      adjust_output_layer_Layers lastActivation_def
      cong: option.case_cong sum.case_cong prod.case_cong)

text \<open>
  C6 (as stated). The regressor has no warm-start setting, and a second call of \<open>Fit\<close> does
  not go on from the weights the first call left. After one epoch on the example the weights
  are 3233/8000 and 5209/8000. The second call starts from the fresh random weights 1/400
  and 1/200: its forward pass predicts 3/400 and 1/80, which are the predictions of the fresh
  weights, and it ends with weights one step of descent away from them.
\<close>

theorem second_Fit_reinitializes_counterexample:
  "on_result (\<lambda>st. weights_of (st_regr st)) (Fit ext0 0 (regr_ex\<lparr>Epochs := 1\<rparr>) X_ex Y_ex)
     = Inr [[[Fin (3233 / 8000)], [Fin (5209 / 8000)]]]
   \<and> on_result (\<lambda>s. map (\<lambda>L. to_rows (Theta L)) (snd s))
        (and_then (Fit ext0 0 (regr_ex\<lparr>Epochs := 1\<rparr>) X_ex Y_ex) recreate)
     = Inr [[[Fin (1 / 400)], [Fin (1 / 200)]]]
   \<and> on_result (\<lambda>st. (predictions_of (st_regr st), weights_of (st_regr st)))
        (and_then (Fit ext0 0 (regr_ex\<lparr>Epochs := 1\<rparr>) X_ex Y_ex) refit)
     = Inr ([Some [[Fin (3 / 400)], [Fin (1 / 80)]]],
            [[[Fin (803 / 2000)], [Fin (5227 / 8000)]]])"
  by code_simp

text \<open>
  C6 (amended). Every call of \<open>Fit\<close> discards the layers the regressor holds and builds
  fresh, randomly initialized ones: the result of the call is the same whatever the layers
  were before it.
\<close>

theorem Fit_discards_existing_layers:
  "Fit ext rng (regr\<lparr>Layers := ls\<rparr>) X Y = Fit ext rng regr X Y"
  by (simp add: Fit_def create_layers_Layers Let_def cong: sum.case_cong prod.case_cong)

subsection \<open>The recorded losses\<close>

text \<open>
  C7. The loss of the first turn of the epoch loop is not recorded as \<open>JFirst\<close>: the test
  is \<open>epoch == 1\<close> and the loop counts from 0. With one epoch, \<open>J\<close> holds the loss of that
  epoch, 216673/25600, and \<open>JFirst\<close> still holds 0; with two epochs both hold the loss of the
  second epoch, 187264233/51200000.
\<close>

theorem JFirst_is_loss_of_second_epoch:
  "on_result (\<lambda>st. (J (st_regr st), JFirst (st_regr st)))
       (Fit ext0 0 (regr_ex\<lparr>Epochs := 1\<rparr>) X_ex Y_ex)
     = Inr (Fin (216673 / 25600), Fin 0)
   \<and> on_result (\<lambda>st. (J (st_regr st), JFirst (st_regr st)))
       (Fit ext0 0 (regr_ex\<lparr>Epochs := 2\<rparr>) X_ex Y_ex)
     = Inr (Fin (187264233 / 51200000), Fin (187264233 / 51200000))"
  by code_simp

subsection \<open>The activation of the output layer\<close>

text \<open>
  C4. A classifier built by \<open>NewMLPClassifier\<close> with the rectifier as activation gets an
  output layer with the rectifier, not with the logistic activation: the constructor sets
  the field \<open>Loss\<close> to the log loss, and \<open>Fit\<close> tests the field \<open>LossName\<close>, which is empty.
\<close>

theorem classifier_output_activation_not_logistic:
  "on_result (\<lambda>st. activations_of (st_regr st))
       (Fit ext0 0 ((NewMLPClassifier ext0 [] ''relu'' ''sgd'' (Fin 0))\<lparr>Epochs := 1\<rparr>) X_ex Y_ex)
     = Inr [Some ReLU]
   \<and> Loss (NewMLPClassifier ext0 [] ''relu'' ''sgd'' (Fin 0)) = ''log''"
  by code_simp

subsection \<open>The forward pass\<close>

lemma set_elements: "set (elements m) = {At m i j | i j. i < Rows m \<and> j < Cols m}"
  by (auto simp: elements_def to_rows_def) blast

lemma no_NaN_iff: "no_NaN m \<longleftrightarrow> (\<forall>i j. i < Rows m \<and> j < Cols m \<longrightarrow> \<not> IsNaN (At m i j))"
  unfolding no_NaN_def list_all_iff set_elements by auto

lemma find_isl_panicIfNaN:
  "List.find isl (map panicIfNaN vs) = None \<longleftrightarrow> list_all (\<lambda>v. \<not> IsNaN v) vs"
  by (induction vs) (auto simp: panicIfNaN_def)

lemma find_isl_Some: "List.find isl xs = Some x \<Longrightarrow> \<exists>e. x = Inl e"
  by (induction xs) (auto split: if_splits simp: isl_def)

lemma dense_Apply_panicIfNaN:
  assumes "dense_Apply panicIfNaN r a = Inr m"
  shows "m = dense_Clone a \<and> no_NaN a \<and> reuseAs r (Rows a) (Cols a)"
proof -
  from assms have ok: "reuseAs r (Rows a) (Cols a)"
    by (auto simp: dense_Apply_def split: if_splits)
  from assms ok have "List.find isl (map panicIfNaN (elements a)) = None"
    by (auto simp: dense_Apply_def split: option.splits sum.splits dest: find_isl_Some)
  hence nn: "no_NaN a" by (simp add: find_isl_panicIfNaN no_NaN_def)
  have "(\<lambda>i j. case panicIfNaN (At a i j) of Inr v \<Rightarrow> v | Inl _ \<Rightarrow> At a i j) = At a"
    by (auto simp: fun_eq_iff panicIfNaN_def)
  with assms ok show ?thesis using nn
    by (auto simp: dense_Apply_def dense_Clone_def split: option.splits sum.splits)
qed

lemma dense_Apply_panicIfNaN_ok:
  assumes "no_NaN a" "reuseAs r (Rows a) (Cols a)"
  shows "dense_Apply panicIfNaN r a = Inr (dense_Clone a)"
proof -
  have "(\<lambda>i j. case panicIfNaN (At a i j) of Inr v \<Rightarrow> v | Inl _ \<Rightarrow> At a i j) = At a"
    by (auto simp: fun_eq_iff panicIfNaN_def)
  moreover from assms have "List.find isl (map panicIfNaN (elements a)) = None"
    by (simp add: find_isl_panicIfNaN no_NaN_def)
  ultimately show ?thesis using assms by (simp add: dense_Apply_def dense_Clone_def)
qed


lemma Init_result:
  assumes "Init L0 (int r) (int c) = Inr L"
  shows "L = L0\<lparr>Ypred := Some \<lparr>Rows = r, Cols = Cols (Theta L0), At = (\<lambda>i j. Fin 0)\<rparr>,
                 Ytrue := Some \<lparr>Rows = r, Cols = Cols (Theta L0), At = (\<lambda>i j. Fin 0)\<rparr>,
                 Ydiff := Some \<lparr>Rows = r, Cols = Cols (Theta L0), At = (\<lambda>i j. Fin 0)\<rparr>,
                 Grad := Some \<lparr>Rows = 1 + c, Cols = Cols (Theta L0), At = (\<lambda>i j. Fin 0)\<rparr>,
                 Update := Some \<lparr>Rows = 1 + c, Cols = Cols (Theta L0), At = (\<lambda>i j. Fin 0)\<rparr>\<rparr>"
  using assms by (simp add: Init_def NewDense_def Let_def nat_add_distrib)

lemma prediction_dims [simp]:
  "Rows (prediction ext Xl theta a) = Rows Xl" "Cols (prediction ext Xl theta a) = Cols theta"
  by (simp_all add: prediction_def dense_Clone_def appliedMat_def mat_mul_def onesAddedMat_def)

lemma forward_layer_result:
  assumes "forward_layer ext Xl L0 = Inr L'"
  shows "\<exists>L a. (if Ypred L0 = None then Init L0 (int (Rows Xl)) (int (Cols Xl)) else Inr L0) = Inr L
           \<and> Activation L = Some a \<and> 1 + Cols Xl = Rows (Theta L)
           \<and> no_NaN (prediction ext Xl (Theta L) a)
           \<and> L' = L\<lparr>Ypred := Some (prediction ext Xl (Theta L) a)\<rparr>"
  using assms unfolding forward_layer_def prediction_def
  by (auto split: sum.splits option.splits if_splits dest!: dense_Apply_panicIfNaN
      simp: dense_Mul_def onesAddedMat_def dense_Clone_def appliedMat_def)

lemma forward_layer_fixed:
  assumes "Ypred L = Some (prediction ext Xl (Theta L) a)" "Activation L = Some a"
    "1 + Cols Xl = Rows (Theta L)" "no_NaN (prediction ext Xl (Theta L) a)"
  shows "forward_layer ext Xl L = Inr L"
proof -
  have mul: "dense_Mul (prediction ext Xl (Theta L) a) (onesAddedMat Xl) (Theta L)
      = Inr (mat_mul (onesAddedMat Xl) (Theta L))"
    using assms(3) by (simp add: dense_Mul_def reuseAs_def onesAddedMat_def mat_mul_def)
  have app: "dense_Apply panicIfNaN (prediction ext Xl (Theta L) a) (prediction ext Xl (Theta L) a)
      = Inr (prediction ext Xl (Theta L) a)"
    using dense_Apply_panicIfNaN_ok[OF assms(4), of "prediction ext Xl (Theta L) a"]
    by (simp add: reuseAs_def) (simp add: prediction_def dense_Clone_def)
  have "L\<lparr>Ypred := Some (prediction ext Xl (Theta L) a)\<rparr> = L"
    using assms(1) by simp
  then show ?thesis
    using assms(1,2) mul app by (simp add: forward_layer_def prediction_def[symmetric])
qed

lemma forward_layer_idem:
  assumes "forward_layer ext Xl L0 = Inr L'"
  shows "forward_layer ext Xl L' = Inr L'"
proof -
  from forward_layer_result[OF assms] obtain L a where
    L: "(if Ypred L0 = None then Init L0 (int (Rows Xl)) (int (Cols Xl)) else Inr L0) = Inr L"
    and a: "Activation L = Some a" and d: "1 + Cols Xl = Rows (Theta L)"
    and nn: "no_NaN (prediction ext Xl (Theta L) a)"
    and L': "L' = L\<lparr>Ypred := Some (prediction ext Xl (Theta L) a)\<rparr>" by blast
  show ?thesis
    by (rule forward_layer_fixed[where a = a]) (use a d nn L' in simp_all)
qed


lemma for_each_append:
  "for_each body (xs @ ys) s =
     (case for_each body xs s of Inl e \<Rightarrow> Inl e | Inr s1 \<Rightarrow> for_each body ys s1)"
  by (induction xs arbitrary: s) (auto split: sum.splits)

lemma for_each_fixed:
  "(\<And>i. i \<in> set xs \<Longrightarrow> body i s = Inr s) \<Longrightarrow> for_each body xs s = Inr s"
  by (induction xs) auto

lemma predict_layer_fixed:
  "forward_fixed ext X layers l \<Longrightarrow> predict_layer ext X l layers = Inr layers"
  by (auto simp: forward_fixed_def predict_layer_def split: sum.splits)

lemma forward_fixed_cong:
  assumes "forward_fixed ext X layers l" "layers' ! l = layers ! l"
    "l \<noteq> 0 \<Longrightarrow> layers' ! (l - 1) = layers ! (l - 1)"
  shows "forward_fixed ext X layers' l"
proof -
  have "layer_input X layers' l = layer_input X layers l"
    using assms(3) by (simp add: layer_input_def)
  then show ?thesis using assms(1,2) by (simp add: forward_fixed_def cong: sum.case_cong)
qed

lemma predict_layer_step:
  assumes "predict_layer ext X k layers = Inr layers'" "k < length layers"
  shows "length layers' = length layers" "forward_fixed ext X layers' k"
    "\<And>l. l \<noteq> k \<Longrightarrow> layers' ! l = layers ! l"
    "\<exists>m. Ypred (layers' ! k) = Some m \<and> no_NaN m"
proof -
  from assms(1) obtain Xl L where Xl: "layer_input X layers k = Inr Xl"
    and L: "forward_layer ext Xl (layers ! k) = Inr L" and eq: "layers' = layers[k := L]"
    by (auto simp: predict_layer_def split: sum.splits)
  show "length layers' = length layers" by (simp add: eq)
  show "\<And>l. l \<noteq> k \<Longrightarrow> layers' ! l = layers ! l" by (simp add: eq)
  have "layer_input X layers' k = Inr Xl"
    using Xl by (auto simp: layer_input_def eq)
  then show "forward_fixed ext X layers' k"
    using forward_layer_idem[OF L] assms(2) by (simp add: forward_fixed_def eq)
  from forward_layer_result[OF L] show "\<exists>m. Ypred (layers' ! k) = Some m \<and> no_NaN m"
    using assms(2) by (auto simp: eq)
qed

lemma predict_loop:
  assumes "for_each (predict_layer ext X) [0..<k] layers = Inr layers'" "k \<le> length layers"
  shows "length layers' = length layers
     \<and> (\<forall>l<k. forward_fixed ext X layers' l \<and> (\<exists>m. Ypred (layers' ! l) = Some m \<and> no_NaN m))
     \<and> (\<forall>l\<ge>k. layers' ! l = layers ! l)"
  using assms
proof (induction k arbitrary: layers')
  case 0
  then show ?case by simp
next
  case (Suc k)
  from Suc.prems(1) obtain mid where mid: "for_each (predict_layer ext X) [0..<k] layers = Inr mid"
    and step: "predict_layer ext X k mid = Inr layers'"
    by (auto simp: for_each_append split: sum.splits)
  from Suc.IH[OF mid] Suc.prems(2) have len: "length mid = length layers"
    and fixed: "\<forall>l<k. forward_fixed ext X mid l \<and> (\<exists>m. Ypred (mid ! l) = Some m \<and> no_NaN m)"
    and rest: "\<forall>l\<ge>k. mid ! l = layers ! l" by auto
  have klen: "k < length mid" using Suc.prems(2) len by simp
  note st = predict_layer_step[OF step klen]
  have "forward_fixed ext X layers' l \<and> (\<exists>m. Ypred (layers' ! l) = Some m \<and> no_NaN m)"
    if "l < Suc k" for l
  proof (cases "l = k")
    case True
    then show ?thesis using st(2,4) by simp
  next
    case False
    with that have lk: "l < k" by simp
    have "forward_fixed ext X layers' l"
      by (rule forward_fixed_cong[where layers = mid]) (use fixed lk st(3) in auto)
    moreover have "layers' ! l = mid ! l" using st(3) False by simp
    ultimately show ?thesis using fixed lk by simp
  qed
  moreover have "\<forall>l\<ge>Suc k. layers' ! l = layers ! l"
    using st(3) rest by auto
  ultimately show ?case using st(1) len by simp
qed

lemma predict_loop_idem:
  assumes "for_each (predict_layer ext X) [0..<length layers] layers = Inr layers'"
  shows "for_each (predict_layer ext X) [0..<length layers'] layers' = Inr layers'"
proof -
  from predict_loop[OF assms] have "length layers' = length layers"
    and "\<forall>l<length layers. forward_fixed ext X layers' l" by auto
  then show ?thesis
    by (intro for_each_fixed predict_layer_fixed) simp
qed

text \<open>
  C8. Predicting twice gives the same result: when \<open>Predict\<close> returns for an input \<open>X\<close>, a
  second call with the same \<open>X\<close> on the regressor the first call left (weights untouched)
  returns the same output and leaves the regressor as it was, buffers included.
\<close>

theorem Predict_idempotent:
  assumes "Predict ext regr X Y = Inr (regr1, out)"
  shows "Predict ext regr1 X Y = Inr (regr1, out)"
proof -
  from assms obtain layers
    where loop: "for_each (predict_layer ext X) [0..<length (Layers regr)] (Layers regr) = Inr layers"
      and r1: "regr1 = regr\<lparr>Layers := layers\<rparr>"
    by (auto simp: Predict_def split: sum.splits option.splits if_splits)
  have "for_each (predict_layer ext X) [0..<length (Layers regr1)] (Layers regr1) = Inr layers"
    using predict_loop_idem[OF loop] r1 by simp
  moreover have "regr1\<lparr>Layers := layers\<rparr> = regr1" using r1 by simp
  ultimately show ?thesis
    using assms loop by (auto simp: Predict_def split: sum.splits option.splits if_splits)
qed

theorem Predict_idempotent_witness:
  "case Predict ext0 net_ex X_ex (Some Y_ex) of
     Inl e \<Rightarrow> False
   | Inr (regr1, out) \<Rightarrow>
       Predict ext0 regr1 X_ex (Some Y_ex) = Inr (regr1, out)
       \<and> buffer_rows out = Some [[Fin (3 / 4)], [Fin 1]]"
proof -
  have ok: "\<not> isl (Predict ext0 net_ex X_ex (Some Y_ex))"
    by code_simp
  then obtain regr1 out where run: "Predict ext0 net_ex X_ex (Some Y_ex) = Inr (regr1, out)"
    by (cases "Predict ext0 net_ex X_ex (Some Y_ex)") auto
  have "on_result (\<lambda>p. buffer_rows (snd p)) (Predict ext0 net_ex X_ex (Some Y_ex))
      = Inr (Some [[Fin (3 / 4)], [Fin 1]])"
    by code_simp
  with run have "buffer_rows out = Some [[Fin (3 / 4)], [Fin 1]]"
    by (simp add: on_result_def)
  with Predict_idempotent[OF run] run show ?thesis by simp
qed




subsection \<open>The backward pass\<close>



lemma dense_elementwise_result:
  "dense_elementwise op r a b = Inr m \<Longrightarrow> m = mat_elementwise op a b"
  by (auto simp: dense_elementwise_def split: if_splits)

lemma dense_Mul_result: "dense_Mul r a b = Inr m \<Longrightarrow> m = mat_mul a b"
  by (auto simp: dense_Mul_def split: if_splits)

lemma backward_Ydiff_output:
  assumes "backward_Ydiff ext Y outputLayer outputLayer layers = Inr layers'"
  shows "\<exists>yp. Ypred (layers ! outputLayer) = Some yp
     \<and> layers' = layers[outputLayer := (layers ! outputLayer)
          \<lparr>Ytrue := Some (dense_Clone Y), Ydiff := Some (mat_elementwise f_sub yp Y)\<rparr>]"
  using assms unfolding backward_Ydiff_def Let_def dense_Sub_def
  by (auto split: option.splits sum.splits dest!: dense_elementwise_result)

lemma backward_Ydiff_interior:
  assumes "backward_Ydiff ext Y outputLayer l layers = Inr layers'" "l \<noteq> outputLayer"
  shows "\<exists>yp ydn a. Ypred (layers ! l) = Some yp \<and> Ydiff (layers ! (l + 1)) = Some ydn
     \<and> Activation (layers ! l) = Some a
     \<and> layers' = layers[l := (layers ! l)
          \<lparr>Ytrue := Some (mat_elementwise f_sub yp
                             (interior_diff ext ydn (Theta (layers ! (l + 1))) yp a)),
           Ydiff := Some (interior_diff ext ydn (Theta (layers ! (l + 1))) yp a)\<rparr>]"
  using assms unfolding backward_Ydiff_def Let_def dense_Sub_def dense_MulElem_def interior_diff_def
  by (auto split: option.splits sum.splits dest!: dense_elementwise_result dense_Mul_result)



lemma backward_Ydiff_other:
  assumes "backward_Ydiff ext Y outputLayer l layers = Inr layers'"
  shows "length layers' = length layers" "\<And>k. k \<noteq> l \<Longrightarrow> layers' ! k = layers ! k"
    "l < length layers \<Longrightarrow> Theta (layers' ! l) = Theta (layers ! l)"
    "l < length layers \<Longrightarrow> Ypred (layers' ! l) = Ypred (layers ! l)"
    "l < length layers \<Longrightarrow> Activation (layers' ! l) = Activation (layers ! l)"
proof -
  have "\<exists>yt yd. layers' = layers[l := (layers ! l)\<lparr>Ytrue := Some yt, Ydiff := Some yd\<rparr>]"
  proof (cases "l = outputLayer")
    case True
    with backward_Ydiff_output assms show ?thesis by blast
  next
    case False
    from backward_Ydiff_interior[OF assms False] show ?thesis by blast
  qed
  then obtain yt yd where eq: "layers' = layers[l := (layers ! l)\<lparr>Ytrue := Some yt, Ydiff := Some yd\<rparr>]"
    by blast
  show "length layers' = length layers" by (simp add: eq)
  show "\<And>k. k \<noteq> l \<Longrightarrow> layers' ! k = layers ! k" by (simp add: eq)
  show "l < length layers \<Longrightarrow> Theta (layers' ! l) = Theta (layers ! l)" by (simp add: eq)
  show "l < length layers \<Longrightarrow> Ypred (layers' ! l) = Ypred (layers ! l)" by (simp add: eq)
  show "l < length layers \<Longrightarrow> Activation (layers' ! l) = Activation (layers ! l)" by (simp add: eq)
qed

lemma backward_layer_result:
  assumes "backward_layer ext lossF X Y outputLayer n epoch l regr = Inr regr1"
  obtains layers1 yd1 g1 u1 opt1 where
    "backward_Ydiff ext Y outputLayer l (Layers regr) = Inr layers1"
    "Layers regr1 = layers1[l := (layers1 ! l)
        \<lparr>Theta := mat_elementwise f_add (Theta (layers1 ! l)) u1, Ydiff := Some yd1,
         Grad := Some g1, Update := Some u1, Optimizer := opt1\<rparr>]"
proof -
  from assms obtain layers1 where
    l1: "backward_Ydiff ext Y outputLayer l (Layers regr) = Inr layers1"
    by (auto simp: backward_layer_def split: sum.splits)
  from assms l1 have "\<exists>yd1 g1 u1 opt1. Layers regr1 = layers1[l := (layers1 ! l)
        \<lparr>Theta := mat_elementwise f_add (Theta (layers1 ! l)) u1, Ydiff := Some yd1,
         Grad := Some g1, Update := Some u1, Optimizer := opt1\<rparr>]"
    unfolding backward_layer_def Let_def dense_Add_def
    by (auto split: sum.splits option.splits prod.splits if_splits
        dest!: dense_elementwise_result) blast+
  with l1 that show thesis by blast
qed




subsection \<open>Shuffling\<close>

lemma fit_epoch_data:
  assumes "fit_epoch ext lossF outputLayer n epoch st = Inr st'"
  shows "data_of st' = shuffle_step ext (data_of st)"
  using assms unfolding fit_epoch_def data_of_def shuffle_step_def
  by (auto split: prod.splits sum.splits)

lemma fit_epochs_data:
  assumes "for_each (fit_epoch ext lossF outputLayer n) es st = Inr st'"
  shows "data_of st' = (shuffle_step ext ^^ length es) (data_of st)"
  using assms
proof (induction es arbitrary: st)
  case Nil
  then show ?case by simp
next
  case (Cons e es)
  from Cons.prems obtain mid where m: "fit_epoch ext lossF outputLayer n e st = Inr mid"
    and r: "for_each (fit_epoch ext lossF outputLayer n) es mid = Inr st'"
    by (auto split: sum.splits)
  from Cons.IH[OF r] fit_epoch_data[OF m] show ?case
    by (simp add: funpow_swap1)
qed

lemma Fit_data:
  assumes "Fit ext rng regr X Y = Inr st"
  shows "\<exists>rng1 layers. create_layers ext rng regr X Y = Inr (rng1, layers)
     \<and> data_of st = (shuffle_step ext ^^ nat (if Epochs regr \<le> 0 then 100 else Epochs regr)) (rng1, X, Y)"
proof -
  from assms obtain rng1 layers where c: "create_layers ext rng regr X Y = Inr (rng1, layers)"
    by (auto simp: Fit_def split: sum.splits)
  with assms have "for_each (fit_epoch ext (LossFunctions ext (Loss regr)) (length layers - 1) (Rows X))
      [0..<nat (if Epochs regr \<le> 0 then 100 else Epochs regr)]
      \<lparr>st_rng = rng1, st_regr = regr\<lparr>Layers := layers,
           Epochs := (if Epochs regr \<le> 0 then 100 else Epochs regr)\<rparr>, st_X = X, st_Y = Y\<rparr> = Inr st"
    by (simp add: Fit_def Let_def)
  from fit_epochs_data[OF this] c show ?thesis by (simp add: data_of_def)
qed

lemma swap_index_bij:
  assumes "i < n" "j < n"
  shows "bij_betw (swap_index i j) {..<n} {..<n}"
  by (rule bij_betw_byWitness[where f' = "swap_index i j"])
     (use assms in \<open>auto simp: swap_index_def\<close>)

lemma permute_rows_id: "permute_rows id (m :: matrix) = m"
  by (cases m) (simp add: permute_rows_def)

lemma permute_rows_comp: "permute_rows p (permute_rows q m) = permute_rows (q \<circ> p) m"
  by (simp add: permute_rows_def)

lemma shuffle_loop_permutes:
  assumes "i = 0 \<or> i < n"
  shows "\<exists>p rng'. bij_betw p {..<n} {..<n}
           \<and> shuffle_loop ext i (rng, X, Y) = (rng', permute_rows p X, permute_rows p Y)"
  using assms
proof (induction i arbitrary: rng X Y)
  case 0
  have "bij_betw id {..<n} {..<n}" by simp
  then show ?case using permute_rows_id by (metis shuffle_loop.simps(1))
next
  case (Suc i)
  then have i: "Suc i < n" by simp
  obtain j rng1 where d: "rand_Intn ext rng (Suc (Suc i)) = (j, rng1)"
    by (cases "rand_Intn ext rng (Suc (Suc i))") auto
  let ?j = "j mod Suc (Suc i)"
  have "?j < Suc (Suc i)" by simp
  with i have j: "?j < n" by linarith
  have sw: "bij_betw (swap_index (Suc i) ?j) {..<n} {..<n}"
    by (rule swap_index_bij[OF i j])
  from i have "i = 0 \<or> i < n" by simp
  from Suc.IH[OF this, of rng1 "swap_rows (Suc i) ?j X" "swap_rows (Suc i) ?j Y"]
  obtain p rng' where p: "bij_betw p {..<n} {..<n}"
    and r: "shuffle_loop ext i (rng1, swap_rows (Suc i) ?j X, swap_rows (Suc i) ?j Y)
            = (rng', permute_rows p (swap_rows (Suc i) ?j X), permute_rows p (swap_rows (Suc i) ?j Y))"
    by blast
  have "bij_betw (swap_index (Suc i) ?j \<circ> p) {..<n} {..<n}"
    by (rule bij_betw_trans[OF p sw])
  moreover have "shuffle_loop ext (Suc i) (rng, X, Y)
      = (rng', permute_rows (swap_index (Suc i) ?j \<circ> p) X,
               permute_rows (swap_index (Suc i) ?j \<circ> p) Y)"
    using d r by (simp add: swap_rows_def permute_rows_comp)
  ultimately show ?case by blast
qed

lemma DenseShuffle_permutes:
  "\<exists>p rng'. bij_betw p {..<Rows X} {..<Rows X}
     \<and> DenseShuffle ext rng X Y = (rng', permute_rows p X, permute_rows p Y)"
  unfolding DenseShuffle_def by (rule shuffle_loop_permutes) auto

lemma DenseShuffle_dims:
  assumes "DenseShuffle ext rng X Y = (rng1, X1, Y1)"
  shows "Rows X1 = Rows X" "Cols X1 = Cols X" "Rows Y1 = Rows Y" "Cols Y1 = Cols Y"
  using DenseShuffle_permutes[of X ext rng Y] assms
  by (auto simp: permute_rows_def)

lemma shuffle_step_paired:
  "\<exists>p. bij_betw p {..<Rows X} {..<Rows X}
     \<and> snd (shuffle_step ext (rng, X, Y)) = (permute_rows p X, permute_rows p Y)"
  using DenseShuffle_permutes[of X ext rng Y] by (auto simp: shuffle_step_def)

lemma shuffle_step_ext0:
  "shuffle_step ext0 (r, X_ex, Y_ex)
     = (Suc r, swap_rows (Suc 0) 0 X_ex, swap_rows (Suc 0) 0 Y_ex)"
  by (simp add: shuffle_step_def DenseShuffle_def ext0_def X_ex_def of_rows_def)

text \<open>
  C5 (as stated). Shuffling is not optional: the regressor has no shuffle flag. With a random
  source whose shuffle of two rows exchanges them, no configuration of the regressor that runs
  one epoch to the end leaves the rows of \<open>X\<close> in their order.
\<close>

theorem no_configuration_skips_shuffle_counterexample:
  "\<not> (\<exists>regr st. Epochs regr = 1 \<and> Fit ext0 0 regr X_ex Y_ex = Inr st
         \<and> to_rows (st_X st) = to_rows X_ex)"
proof
  assume "\<exists>regr st. Epochs regr = 1 \<and> Fit ext0 0 regr X_ex Y_ex = Inr st
         \<and> to_rows (st_X st) = to_rows X_ex"
  then obtain regr :: "nat MLPRegressor" and st where e: "Epochs regr = 1"
    and f: "Fit ext0 0 regr X_ex Y_ex = Inr st" and same: "to_rows (st_X st) = to_rows X_ex"
    by blast
  from Fit_data[OF f] e obtain rng1 where "data_of st = shuffle_step ext0 (rng1, X_ex, Y_ex)"
    by auto
  then have "st_X st = swap_rows (Suc 0) 0 X_ex"
    by (simp add: shuffle_step_ext0 data_of_def)
  then have "to_rows (st_X st) = [[Fin 2], [Fin 1]]"
    by (simp add: to_rows_def swap_rows_def permute_rows_def swap_index_def X_ex_def
        of_rows_def upt_rec)
  moreover have "to_rows X_ex = [[Fin 1], [Fin 2]]"
    by (simp add: to_rows_def X_ex_def of_rows_def upt_rec)
  ultimately show False using same by simp
qed

text \<open>
  C5 (amended). Every epoch of every fit begins with a shuffle: when \<open>Fit\<close> returns, the
  random source, \<open>X\<close> and \<open>Y\<close> are what as many shuffles as there were epochs make of the
  random source left by the creation of the layers and of the matrices passed in. Each
  shuffle applies one and the same permutation of the row indices to both matrices: row
  \<open>i\<close> of the result is row \<open>p i\<close> of the matrix before, for a bijection \<open>p\<close> of the row
  indices.
\<close>

theorem Fit_shuffles_every_epoch:
  assumes "Fit ext rng regr X Y = Inr st"
  shows "(\<exists>rng1 layers. create_layers ext rng regr X Y = Inr (rng1, layers)
     \<and> data_of st = (shuffle_step ext ^^ nat (if Epochs regr \<le> 0 then 100 else Epochs regr)) (rng1, X, Y))
     \<and> (\<forall>r A B. \<exists>p. bij_betw p {..<Rows A} {..<Rows A}
            \<and> snd (shuffle_step ext (r, A, B)) = (permute_rows p A, permute_rows p B))"
  by (intro conjI allI) (rule Fit_data[OF assms], rule shuffle_step_paired)

theorem Fit_shuffles_every_epoch_witness:
  "case Fit ext0 0 (regr_ex\<lparr>Epochs := 1\<rparr>) X_ex Y_ex of
     Inl e \<Rightarrow> False
   | Inr st \<Rightarrow>
       (\<exists>rng1 layers. create_layers ext0 0 (regr_ex\<lparr>Epochs := 1\<rparr>) X_ex Y_ex = Inr (rng1, layers)
          \<and> data_of st = shuffle_step ext0 (rng1, X_ex, Y_ex))
       \<and> to_rows (st_X st) = [[Fin 2], [Fin 1]] \<and> to_rows (st_Y st) = [[Fin 5], [Fin 3]]"
proof -
  have "\<not> isl (Fit ext0 0 (regr_ex\<lparr>Epochs := 1\<rparr>) X_ex Y_ex)" by code_simp
  then obtain st where f: "Fit ext0 0 (regr_ex\<lparr>Epochs := 1\<rparr>) X_ex Y_ex = Inr st"
    by (metis sum.collapse(2))
  have "on_result (\<lambda>st. (to_rows (st_X st), to_rows (st_Y st)))
          (Fit ext0 0 (regr_ex\<lparr>Epochs := 1\<rparr>) X_ex Y_ex)
        = Inr ([[Fin 2], [Fin 1]], [[Fin 5], [Fin 3]])" by code_simp
  then have v: "to_rows (st_X st) = [[Fin 2], [Fin 1]] \<and> to_rows (st_Y st) = [[Fin 5], [Fin 3]]"
    unfolding f on_result_def by simp
  from Fit_shuffles_every_epoch[OF f] v show ?thesis
    unfolding f by simp
qed

subsection \<open>The shape invariant\<close>

lemma NewLayer_result:
  assumes "NewLayer ext rng r c a opt = Inr (rng', L)"
  shows "Rows (Theta L) = nat r" "Cols (Theta L) = nat c" "Ypred L = None" "Activation L = a"
  using assms unfolding NewLayer_def NewDense_def Let_def
  by (auto split: if_splits prod.splits)

lemma Init_shapes:
  assumes "Rows (Theta L0) = 1 + inputs"
  shows "\<exists>L1. Init L0 (int samples) (int inputs) = Inr L1 \<and> layer_shapes samples inputs L1
           \<and> Theta L1 = Theta L0"
  using assms
  by (simp add: Init_def NewDense_def Let_def layer_shapes_def has_shape_def nat_add_distrib)

lemma layer_shapes_Ypred:
  assumes "layer_shapes samples inputs L" "Rows m = samples" "Cols m = Cols (Theta L)"
  shows "layer_shapes samples inputs (L\<lparr>Ypred := Some m\<rparr>)"
  using assms by (simp add: layer_shapes_def has_shape_def)

lemma forward_layer_shapes:
  assumes run: "forward_layer ext Xl L0 = Inr L'"
    and pre: "Ypred L0 = None \<or> layer_shapes (Rows Xl) (Rows (Theta L0) - 1) L0"
  shows "layer_shapes (Rows Xl) (Cols Xl) L' \<and> Theta L' = Theta L0"
proof -
  from forward_layer_result[OF run] obtain L a where
    L: "(if Ypred L0 = None then Init L0 (int (Rows Xl)) (int (Cols Xl)) else Inr L0) = Inr L"
    and d: "1 + Cols Xl = Rows (Theta L)"
    and L': "L' = L\<lparr>Ypred := Some (prediction ext Xl (Theta L) a)\<rparr>" by blast
  have "layer_shapes (Rows Xl) (Cols Xl) L \<and> Theta L = Theta L0"
  proof (cases "Ypred L0 = None")
    case True
    with L have i: "Init L0 (int (Rows Xl)) (int (Cols Xl)) = Inr L" by simp
    then have th: "Theta L = Theta L0"
      by (auto simp: Init_def Let_def split: sum.splits)
    with d have "Rows (Theta L0) = 1 + Cols Xl" by simp
    from Init_shapes[OF this, of "Rows Xl"] i th show ?thesis by simp
  next
    case False
    from d have "Rows (Theta L) - 1 = Cols Xl" by simp
    with False L pre show ?thesis by auto
  qed
  then show ?thesis unfolding L' by (simp add: layer_shapes_Ypred)
qed

lemma layer_input_shapes:
  assumes "layer_input X layers l = Inr Xl"
    and "l \<noteq> 0 \<Longrightarrow> layer_shapes (Rows X) i (layers ! (l - 1))"
  shows "Rows Xl = Rows X \<and> Cols Xl = input_width (Cols X) layers l"
  using assms
  by (auto simp: layer_input_def input_width_def deref_def layer_shapes_def has_shape_def
      split: if_splits option.splits)

lemma input_width_cong:
  "(\<And>k. Theta (layers' ! k) = Theta (layers ! k)) \<Longrightarrow>
   input_width n layers' l = input_width n layers l"
  by (simp add: input_width_def)

lemma predict_loop_shapes:
  assumes "for_each (predict_layer ext X) [0..<k] layers = Inr layers'" "k \<le> length layers"
    and pre: "unallocated_or_shaped (Rows X) layers"
  shows "length layers' = length layers
     \<and> (\<forall>l<k. layer_shapes (Rows X) (input_width (Cols X) layers' l) (layers' ! l))
     \<and> (\<forall>l. Theta (layers' ! l) = Theta (layers ! l))
     \<and> (\<forall>l\<ge>k. layers' ! l = layers ! l)"
  using assms(1,2)
proof (induction k arbitrary: layers')
  case 0
  then show ?case by simp
next
  case (Suc k)
  from Suc.prems(1) obtain mid where mid: "for_each (predict_layer ext X) [0..<k] layers = Inr mid"
    and step: "predict_layer ext X k mid = Inr layers'"
    by (auto simp: for_each_append split: sum.splits)
  from Suc.IH[OF mid] Suc.prems(2) have len: "length mid = length layers"
    and shaped: "\<forall>l<k. layer_shapes (Rows X) (input_width (Cols X) mid l) (mid ! l)"
    and thetas: "\<forall>l. Theta (mid ! l) = Theta (layers ! l)"
    and rest: "\<forall>l\<ge>k. mid ! l = layers ! l" by auto
  have klen: "k < length mid" using Suc.prems(2) len by simp
  from step obtain Xl L where Xl: "layer_input X mid k = Inr Xl"
    and L: "forward_layer ext Xl (mid ! k) = Inr L" and eq: "layers' = mid[k := L]"
    by (auto simp: predict_layer_def split: sum.splits)
  have xdims: "Rows Xl = Rows X \<and> Cols Xl = input_width (Cols X) mid k"
    by (rule layer_input_shapes[OF Xl, where i = "input_width (Cols X) mid (k - 1)"])
       (use shaped in auto)
  have "mid ! k \<in> set layers" using rest klen len by (metis le_refl nth_mem)
  with pre have "Ypred (mid ! k) = None \<or> layer_shapes (Rows X) (Rows (Theta (mid ! k)) - 1) (mid ! k)"
    by (auto simp: unallocated_or_shaped_def list_all_iff)
  with forward_layer_shapes[OF L] xdims
  have Lsh: "layer_shapes (Rows X) (input_width (Cols X) mid k) L" and Lth: "Theta L = Theta (mid ! k)"
    by auto
  have th': "Theta (layers' ! l) = Theta (mid ! l)" for l
    using Lth klen by (cases "l = k") (simp_all add: eq)
  have iw: "input_width (Cols X) layers' l = input_width (Cols X) mid l" for l
    by (rule input_width_cong) (rule th')
  have "layer_shapes (Rows X) (input_width (Cols X) layers' l) (layers' ! l)" if "l < Suc k" for l
  proof (cases "l = k")
    case True
    have "layers' ! k = L" using klen by (simp add: eq)
    with True Lsh show ?thesis by (simp add: iw)
  next
    case False
    with that have "l < k" by simp
    moreover have "layers' ! l = mid ! l" using False by (simp add: eq)
    ultimately show ?thesis using shaped by (simp add: iw)
  qed
  moreover have "\<forall>l\<ge>Suc k. layers' ! l = layers ! l" using rest by (simp add: eq)
  ultimately show ?case using len thetas th' by (simp add: eq)
qed

lemma Predict_shapes:
  assumes "Predict ext regr X Y = Inr (regr1, out)" "unallocated_or_shaped (Rows X) (Layers regr)"
  shows "net_shapes (Rows X) (Cols X) (Layers regr1)"
proof -
  from assms obtain layers
    where loop: "for_each (predict_layer ext X) [0..<length (Layers regr)] (Layers regr) = Inr layers"
      and r1: "regr1 = regr\<lparr>Layers := layers\<rparr>"
    by (auto simp: Predict_def split: sum.splits option.splits if_splits)
  from predict_loop_shapes[OF loop _ assms(2)] show ?thesis
    by (simp add: r1 net_shapes_def list_all_iff)
qed


lemma backward_Ydiff_dims:
  assumes "backward_Ydiff ext Y outputLayer l layers = Inr layers'"
  shows "\<exists>yp yt yd. Ypred (layers ! l) = Some yp
     \<and> layers' = layers[l := (layers ! l)\<lparr>Ytrue := Some yt, Ydiff := Some yd\<rparr>]
     \<and> Rows yt = Rows yp \<and> Cols yt = Cols yp \<and> Rows yd = Rows yp \<and> Cols yd = Cols yp"
proof (cases "l = outputLayer")
  case True
  with backward_Ydiff_output assms obtain yp where yp: "Ypred (layers ! l) = Some yp"
    and eq: "layers' = layers[l := (layers ! l)
          \<lparr>Ytrue := Some (dense_Clone Y), Ydiff := Some (mat_elementwise f_sub yp Y)\<rparr>]"
    by blast
  from assms True yp have "Rows yp = Rows Y \<and> Cols yp = Cols Y"
    unfolding backward_Ydiff_def Let_def dense_Sub_def dense_elementwise_def
    by (auto split: option.splits sum.splits if_splits)
  then have "Rows (dense_Clone Y) = Rows yp \<and> Cols (dense_Clone Y) = Cols yp
      \<and> Rows (mat_elementwise f_sub yp Y) = Rows yp \<and> Cols (mat_elementwise f_sub yp Y) = Cols yp"
    by (simp add: dense_Clone_def mat_elementwise_def)
  with yp eq show ?thesis by blast
next
  case False
  from backward_Ydiff_interior[OF assms False] obtain yp ydn a where
    yp: "Ypred (layers ! l) = Some yp" and ydn: "Ydiff (layers ! (l + 1)) = Some ydn"
    and a: "Activation (layers ! l) = Some a"
    and eq: "layers' = layers[l := (layers ! l)
          \<lparr>Ytrue := Some (mat_elementwise f_sub yp
                             (interior_diff ext ydn (Theta (layers ! (l + 1))) yp a)),
           Ydiff := Some (interior_diff ext ydn (Theta (layers ! (l + 1))) yp a)\<rparr>]"
    by blast
  from assms False yp ydn a
  have "Rows (mat_mul ydn (firstColumnRemovedMat (T_mat (Theta (layers ! (l + 1)))))) = Rows yp
      \<and> Cols (mat_mul ydn (firstColumnRemovedMat (T_mat (Theta (layers ! (l + 1)))))) = Cols yp"
    unfolding backward_Ydiff_def Let_def dense_MulElem_def dense_elementwise_def dense_Mul_def
    by (auto split: option.splits sum.splits if_splits simp: appliedMat_def)
  then have "Rows (interior_diff ext ydn (Theta (layers ! (l + 1))) yp a) = Rows yp
      \<and> Cols (interior_diff ext ydn (Theta (layers ! (l + 1))) yp a) = Cols yp"
    by (simp add: interior_diff_def mat_elementwise_def)
  then have "Rows (mat_elementwise f_sub yp
                  (interior_diff ext ydn (Theta (layers ! (l + 1))) yp a)) = Rows yp
      \<and> Cols (mat_elementwise f_sub yp
                  (interior_diff ext ydn (Theta (layers ! (l + 1))) yp a)) = Cols yp
      \<and> Rows (interior_diff ext ydn (Theta (layers ! (l + 1))) yp a) = Rows yp
      \<and> Cols (interior_diff ext ydn (Theta (layers ! (l + 1))) yp a) = Cols yp"
    by (simp add: mat_elementwise_def)
  with yp eq show ?thesis by blast
qed

lemma backward_Ydiff_shapes:
  assumes run: "backward_Ydiff ext Y outputLayer l layers = Inr layers'"
    and l: "l < length layers" and sh: "layer_shapes samples inputs (layers ! l)"
  shows "layer_shapes samples inputs (layers' ! l)"
proof -
  from backward_Ydiff_dims[OF run] obtain yp yt yd where
    "Ypred (layers ! l) = Some yp"
    "layers' = layers[l := (layers ! l)\<lparr>Ytrue := Some yt, Ydiff := Some yd\<rparr>]"
    "Rows yt = Rows yp" "Cols yt = Cols yp" "Rows yd = Rows yp" "Cols yd = Cols yp"
    by blast
  with l sh show ?thesis by (simp add: layer_shapes_def has_shape_def)
qed

lemma backward_layer_cases:
  assumes "backward_layer ext lossF X Y outputLayer n epoch l regr = Inr regr1"
  obtains Xl layers1 lf yt yp yd g Jl yd1 g1 u opt1 u1 where
    "layer_input X (Layers regr) l = Inr Xl"
    "backward_Ydiff ext Y outputLayer l (Layers regr) = Inr layers1"
    "lossF = Some lf"
    "Ytrue (layers1 ! l) = Some yt" "Ypred (layers1 ! l) = Some yp"
    "Ydiff (layers1 ! l) = Some yd" "Grad (layers1 ! l) = Some g"
    "lf yt (onesAddedMat Xl) (Theta (layers1 ! l)) yp yd g (Alpha regr) (L1Ratio regr) n
        (Activation (layers1 ! l)) = (Jl, yd1, g1)"
    "Update (layers1 ! l) = Some u"
    "GetUpdate ext (Optimizer (layers1 ! l)) u g1 = (opt1, u1)"
    "Rows u1 = Rows (Theta (layers1 ! l))" "Cols u1 = Cols (Theta (layers1 ! l))"
    "Layers regr1 = layers1[l := (layers1 ! l)
        \<lparr>Theta := mat_elementwise f_add (Theta (layers1 ! l)) u1, Ydiff := Some yd1,
         Grad := Some g1, Update := Some u1, Optimizer := opt1\<rparr>]"
proof -
  from assms have "\<exists>Xl layers1 lf yt yp yd g Jl yd1 g1 u opt1 u1.
    layer_input X (Layers regr) l = Inr Xl
    \<and> backward_Ydiff ext Y outputLayer l (Layers regr) = Inr layers1
    \<and> lossF = Some lf
    \<and> Ytrue (layers1 ! l) = Some yt \<and> Ypred (layers1 ! l) = Some yp
    \<and> Ydiff (layers1 ! l) = Some yd \<and> Grad (layers1 ! l) = Some g
    \<and> lf yt (onesAddedMat Xl) (Theta (layers1 ! l)) yp yd g (Alpha regr) (L1Ratio regr) n
        (Activation (layers1 ! l)) = (Jl, yd1, g1)
    \<and> Update (layers1 ! l) = Some u
    \<and> GetUpdate ext (Optimizer (layers1 ! l)) u g1 = (opt1, u1)
    \<and> Rows u1 = Rows (Theta (layers1 ! l)) \<and> Cols u1 = Cols (Theta (layers1 ! l))
    \<and> Layers regr1 = layers1[l := (layers1 ! l)
        \<lparr>Theta := mat_elementwise f_add (Theta (layers1 ! l)) u1, Ydiff := Some yd1,
         Grad := Some g1, Update := Some u1, Optimizer := opt1\<rparr>]"
    unfolding backward_layer_def Let_def dense_Add_def dense_elementwise_def
    by (auto split: sum.splits option.splits prod.splits if_splits simp: mat_elementwise_def)
  with that show thesis by blast
qed


lemma input_width_Cols_cong:
  "(\<And>k. Cols (Theta (layers' ! k)) = Cols (Theta (layers ! k))) \<Longrightarrow>
   input_width n layers' l = input_width n layers l"
  by (simp add: input_width_def)

lemma net_shapesD:
  "net_shapes samples n layers \<Longrightarrow> l < length layers \<Longrightarrow>
   layer_shapes samples (input_width n layers l) (layers ! l)"
  by (simp add: net_shapes_def list_all_iff)

lemma loss_contractD:
  assumes "loss_contract lf" "Cols Xa = Rows th" "Rows yd = Rows Xa" "Cols yd = Cols th"
    "Rows g = Rows th" "Cols g = Cols th" "lf yt Xa th yp yd g al l1 n a = (Jl, yd1, g1)"
  shows "Rows yd1 = Rows yd \<and> Cols yd1 = Cols yd \<and> Rows g1 = Rows g \<and> Cols g1 = Cols g"
proof -
  have "case lf yt Xa th yp yd g al l1 n a of
           (Jl, yd1, g1) \<Rightarrow> Rows yd1 = Rows yd \<and> Cols yd1 = Cols yd
                             \<and> Rows g1 = Rows g \<and> Cols g1 = Cols g"
    by (rule assms(1)[unfolded loss_contract_def, rule_format]) (simp add: assms(2-6))
  with assms(7) show ?thesis by simp
qed

lemma backward_layer_shapes:
  assumes run: "backward_layer ext (LossFunctions ext name) X Y outputLayer n epoch l regr = Inr regr1"
    and net: "net_shapes (Rows X) (Cols X) (Layers regr)"
    and l: "l < length (Layers regr)"
    and c: "shape_contract ext"
  shows "net_shapes (Rows X) (Cols X) (Layers regr1)"
proof -
  let ?iw = "input_width (Cols X) (Layers regr) l"
  from run obtain Xl layers1 lf yt yp yd g Jl yd1 g1 u opt1 u1 where
    Xl: "layer_input X (Layers regr) l = Inr Xl"
    and b: "backward_Ydiff ext Y outputLayer l (Layers regr) = Inr layers1"
    and lf: "LossFunctions ext name = Some lf"
    and bufs: "Ytrue (layers1 ! l) = Some yt" "Ypred (layers1 ! l) = Some yp"
      "Ydiff (layers1 ! l) = Some yd" "Grad (layers1 ! l) = Some g"
    and loss: "lf yt (onesAddedMat Xl) (Theta (layers1 ! l)) yp yd g (Alpha regr) (L1Ratio regr) n
        (Activation (layers1 ! l)) = (Jl, yd1, g1)"
    and upd: "Update (layers1 ! l) = Some u"
    and gu: "GetUpdate ext (Optimizer (layers1 ! l)) u g1 = (opt1, u1)"
    and u1: "Rows u1 = Rows (Theta (layers1 ! l))" "Cols u1 = Cols (Theta (layers1 ! l))"
    and r1: "Layers regr1 = layers1[l := (layers1 ! l)
        \<lparr>Theta := mat_elementwise f_add (Theta (layers1 ! l)) u1, Ydiff := Some yd1,
         Grad := Some g1, Update := Some u1, Optimizer := opt1\<rparr>]"
    by (rule backward_layer_cases)
  have xd: "Rows Xl = Rows X \<and> Cols Xl = ?iw"
    by (rule layer_input_shapes[OF Xl, where i = "input_width (Cols X) (Layers regr) (l - 1)"])
       (use net l in \<open>auto intro: net_shapesD\<close>)
  note o = backward_Ydiff_other[OF b]
  have sh1: "layer_shapes (Rows X) ?iw (layers1 ! l)"
    by (rule backward_Ydiff_shapes[OF b l]) (rule net_shapesD[OF net l])
  from sh1 bufs upd have dims:
    "Rows (Theta (layers1 ! l)) = 1 + ?iw"
    "Rows yd = Rows X" "Cols yd = Cols (Theta (layers1 ! l))"
    "Rows g = 1 + ?iw" "Cols g = Cols (Theta (layers1 ! l))"
    "Rows u = 1 + ?iw" "Cols u = Cols (Theta (layers1 ! l))"
    "Rows yp = Rows X" "Cols yp = Cols (Theta (layers1 ! l))"
    "Rows yt = Rows X" "Cols yt = Cols (Theta (layers1 ! l))"
    by (simp_all add: layer_shapes_def has_shape_def)
  from c lf have "loss_contract lf" by (auto simp: shape_contract_def)
  from loss_contractD[OF this _ _ _ _ _ loss] dims xd
  have ld: "Rows yd1 = Rows yd" "Cols yd1 = Cols yd" "Rows g1 = Rows g" "Cols g1 = Cols g"
    by (simp_all add: onesAddedMat_def)
  let ?L1 = "(layers1 ! l)
        \<lparr>Theta := mat_elementwise f_add (Theta (layers1 ! l)) u1, Ydiff := Some yd1,
         Grad := Some g1, Update := Some u1, Optimizer := opt1\<rparr>"
  have L1: "layer_shapes (Rows X) ?iw ?L1"
    using dims ld u1 bufs by (simp add: layer_shapes_def has_shape_def mat_elementwise_def)
  have len1: "l < length layers1" using o(1) l by simp
  have cols: "Cols (Theta (Layers regr1 ! k)) = Cols (Theta (Layers regr ! k))" for k
  proof (cases "k = l")
    case True
    then show ?thesis using r1 len1 o(3)[OF l] by (simp add: mat_elementwise_def)
  next
    case False
    then show ?thesis using r1 o(2)[of k] by simp
  qed
  have iw: "input_width (Cols X) (Layers regr1) k = input_width (Cols X) (Layers regr) k" for k
    by (rule input_width_Cols_cong) (rule cols)
  have "layer_shapes (Rows X) (input_width (Cols X) (Layers regr1) k) (Layers regr1 ! k)"
    if "k < length (Layers regr1)" for k
  proof (cases "k = l")
    case True
    have "Layers regr1 ! l = ?L1" using r1 len1 by simp
    with True L1 show ?thesis by (simp only: iw)
  next
    case False
    from that have "k < length (Layers regr)" using r1 o(1) by simp
    moreover have "Layers regr1 ! k = Layers regr ! k" using False r1 o(2)[of k] by simp
    ultimately show ?thesis using net_shapesD[OF net] by (simp only: iw)
  qed
  then show ?thesis by (simp add: net_shapes_def list_all_iff)
qed

lemma backward_layer_length:
  assumes "backward_layer ext lossF X Y outputLayer n epoch l regr = Inr regr1"
  shows "length (Layers regr1) = length (Layers regr)"
proof -
  from assms obtain layers1 yd1 g1 u1 opt1 where
    b: "backward_Ydiff ext Y outputLayer l (Layers regr) = Inr layers1"
    and r1: "Layers regr1 = layers1[l := (layers1 ! l)
        \<lparr>Theta := mat_elementwise f_add (Theta (layers1 ! l)) u1, Ydiff := Some yd1,
         Grad := Some g1, Update := Some u1, Optimizer := opt1\<rparr>]"
    by (rule backward_layer_result)
  from backward_Ydiff_other(1)[OF b] r1 show ?thesis by simp
qed

lemma backward_loop_shapes:
  assumes "for_each (backward_layer ext (LossFunctions ext name) X Y outputLayer n epoch) ls regr = Inr regr1"
    and "net_shapes (Rows X) (Cols X) (Layers regr)"
    and "\<forall>l\<in>set ls. l < length (Layers regr)"
    and "shape_contract ext"
  shows "net_shapes (Rows X) (Cols X) (Layers regr1) \<and> length (Layers regr1) = length (Layers regr)"
  using assms(1,2,3)
proof (induction ls arbitrary: regr)
  case Nil
  then show ?case by simp
next
  case (Cons l ls)
  from Cons.prems(1) obtain mid where
    m: "backward_layer ext (LossFunctions ext name) X Y outputLayer n epoch l regr = Inr mid"
    and r: "for_each (backward_layer ext (LossFunctions ext name) X Y outputLayer n epoch) ls mid = Inr regr1"
    by (auto split: sum.splits)
  have l: "l < length (Layers regr)" using Cons.prems(3) by simp
  have len: "length (Layers mid) = length (Layers regr)" by (rule backward_layer_length[OF m])
  have "net_shapes (Rows X) (Cols X) (Layers mid)"
    by (rule backward_layer_shapes[OF m Cons.prems(2) l assms(4)])
  from Cons.IH[OF r this] Cons.prems(3) len show ?case by simp
qed


lemma net_shapes_unallocated_or_shaped:
  assumes "net_shapes samples n layers"
  shows "unallocated_or_shaped samples layers"
proof -
  have "layer_shapes samples (Rows (Theta L) - 1) L" if "L \<in> set layers" for L
  proof -
    from that obtain l where l: "l < length layers" "L = layers ! l"
      by (auto simp: in_set_conv_nth)
    from net_shapesD[OF assms l(1)] l(2)
    have sh: "layer_shapes samples (input_width n layers l) L" by simp
    then have "Rows (Theta L) - 1 = input_width n layers l" by (simp add: layer_shapes_def)
    with sh show ?thesis by simp
  qed
  then show ?thesis by (simp add: unallocated_or_shaped_def list_all_iff)
qed

lemma add_hidden_layers_unallocated:
  assumes "for_each (add_hidden_layer ext regr) hs (rng, layers, p) = Inr (rng', layers', p')"
    and "\<forall>L\<in>set layers. Ypred L = None"
  shows "\<forall>L\<in>set layers'. Ypred L = None"
  using assms
proof (induction hs arbitrary: rng layers p)
  case Nil
  then show ?case by simp
next
  case (Cons h hs)
  from Cons.prems(1) obtain s1 where
    s: "add_hidden_layer ext regr h (rng, layers, p) = Inr s1"
    and r0: "for_each (add_hidden_layer ext regr) hs s1 = Inr (rng', layers', p')"
    by (auto split: sum.splits)
  from s obtain rng1 L where
    n: "NewLayer ext rng (1 + p) h (regr_Activation regr) (the (regr_Optimizer regr)) = Inr (rng1, L)"
    and s1: "s1 = (rng1, layers @ [L], h)"
    by (auto simp: add_hidden_layer_def split: sum.splits option.splits prod.splits)
  from r0 s1 have
    r: "for_each (add_hidden_layer ext regr) hs (rng1, layers @ [L], h) = Inr (rng', layers', p')"
    by simp
  from NewLayer_result(3)[OF n] Cons.prems(2) have "\<forall>L\<in>set (layers @ [L]). Ypred L = None"
    by auto
  from Cons.IH[OF r this] show ?case .
qed

lemma set_update_unallocated:
  "\<forall>L\<in>set layers. Ypred L = None \<Longrightarrow> Ypred L' = None \<Longrightarrow>
   \<forall>L\<in>set (layers[i := L']). Ypred L = None"
  by (metis in_set_conv_nth length_list_update nth_list_update_eq nth_list_update_neq)

lemma create_layers_unallocated:
  assumes "create_layers ext rng regr X Y = Inr (rng', layers)"
  shows "(\<forall>L\<in>set layers. Ypred L = None) \<and> layers \<noteq> []"
proof -
  from assms obtain rng1 layers1 p opt rng2 L s3 where
    h: "for_each (add_hidden_layer ext regr) (HiddenLayerSizes regr) (rng, [], int (Cols X))
          = Inr (rng1, layers1, p)"
    and n: "NewLayer ext rng1 (1 + p) (int (Cols Y)) (lastActivation regr) opt = Inr (rng2, L)"
    and a1: "adjust_first_layer ext regr (Cols X) (rng2, layers1 @ [L]) = Inr s3"
    and a2: "adjust_output_layer ext regr Y s3 = Inr (rng', layers)"
    by (auto simp: create_layers_def split: sum.splits option.splits prod.splits)
  from add_hidden_layers_unallocated[OF h] have u1: "\<forall>L\<in>set layers1. Ypred L = None" by simp
  with NewLayer_result(3)[OF n] have u2: "\<forall>L\<in>set (layers1 @ [L]). Ypred L = None" by auto
  from a1 u2 have u3: "(\<forall>L\<in>set (snd s3). Ypred L = None) \<and> snd s3 \<noteq> []"
    unfolding adjust_first_layer_def
    by (auto split: if_splits option.splits sum.splits prod.splits
        dest!: NewLayer_result(3) set_update_subset_insert[THEN subsetD])
  from a2 u3 show ?thesis
    unfolding adjust_output_layer_def Let_def
    by (cases s3) (auto split: if_splits option.splits sum.splits prod.splits
        dest!: NewLayer_result(3) set_update_subset_insert[THEN subsetD])
qed

lemma fit_epoch_shapes:
  assumes run: "fit_epoch ext (LossFunctions ext name) (length (Layers (st_regr st)) - 1) n epoch st = Inr st'"
    and pre: "unallocated_or_shaped (Rows (st_X st)) (Layers (st_regr st))"
    and ne: "Layers (st_regr st) \<noteq> []"
    and c: "shape_contract ext"
  shows "net_shapes (Rows (st_X st)) (Cols (st_X st)) (Layers (st_regr st'))
      \<and> Rows (st_X st') = Rows (st_X st) \<and> Cols (st_X st') = Cols (st_X st)
      \<and> length (Layers (st_regr st')) = length (Layers (st_regr st))"
proof -
  let ?oL = "length (Layers (st_regr st)) - 1"
  obtain rng1 X1 Y1 where sh: "DenseShuffle ext (st_rng st) (st_X st) (st_Y st) = (rng1, X1, Y1)"
    by (cases "DenseShuffle ext (st_rng st) (st_X st) (st_Y st)") auto
  then have xd: "Rows X1 = Rows (st_X st)" "Cols X1 = Cols (st_X st)"
    by (rule DenseShuffle_dims)+
  from run sh obtain regr1 out regr2 where
    p: "Predict ext (st_regr st) X1 None = Inr (regr1, out)"
    and b: "for_each (backward_layer ext (LossFunctions ext name) X1 Y1 ?oL n epoch)
              (rev [0..<Suc ?oL]) regr1 = Inr regr2"
    and st': "st' = \<lparr>st_rng = rng1, st_regr = regr2, st_X = X1, st_Y = Y1\<rparr>"
    by (auto simp: fit_epoch_def split: sum.splits prod.splits)
  from pre xd have "unallocated_or_shaped (Rows X1) (Layers (st_regr st))" by simp
  from Predict_shapes[OF p this] have n1: "net_shapes (Rows X1) (Cols X1) (Layers regr1)" .
  from p have len1: "length (Layers regr1) = length (Layers (st_regr st))"
    by (auto simp: Predict_def split: sum.splits dest!: predict_loop[OF _ le_refl])
  from ne len1 have "\<forall>l\<in>set (rev [0..<Suc ?oL]). l < length (Layers regr1)" by auto
  from backward_loop_shapes[OF b n1 this c] xd len1 show ?thesis by (simp add: st')
qed


lemma fit_epochs_shapes:
  assumes "for_each (fit_epoch ext (LossFunctions ext name) oL n) (e # es) st = Inr st'"
    and "oL = length (Layers (st_regr st)) - 1"
    and "unallocated_or_shaped (Rows (st_X st)) (Layers (st_regr st))"
    and "Layers (st_regr st) \<noteq> []"
    and c: "shape_contract ext"
  shows "net_shapes (Rows (st_X st)) (Cols (st_X st)) (Layers (st_regr st'))"
  using assms(1-4)
proof (induction es arbitrary: st e)
  case Nil
  then have "fit_epoch ext (LossFunctions ext name) (length (Layers (st_regr st)) - 1) n e st = Inr st'"
    by (auto split: sum.splits)
  from fit_epoch_shapes[OF this Nil.prems(3,4) c] show ?case by simp
next
  case (Cons e2 es)
  from Cons.prems(1,2) obtain mid where
    m: "fit_epoch ext (LossFunctions ext name) (length (Layers (st_regr st)) - 1) n e st = Inr mid"
    and r: "for_each (fit_epoch ext (LossFunctions ext name) oL n) (e2 # es) mid = Inr st'"
    by (auto split: sum.splits)
  note sh = fit_epoch_shapes[OF m Cons.prems(3,4) c]
  have 1: "oL = length (Layers (st_regr mid)) - 1" using sh Cons.prems(2) by simp
  have 2: "unallocated_or_shaped (Rows (st_X mid)) (Layers (st_regr mid))"
    using sh net_shapes_unallocated_or_shaped by auto
  have 3: "Layers (st_regr mid) \<noteq> []" using sh Cons.prems(4) by auto
  from Cons.IH[OF r 1 2 3] sh show ?case by simp
qed

lemma Fit_shapes:
  assumes run: "Fit ext rng regr X Y = Inr st" and c: "shape_contract ext"
  shows "net_shapes (Rows X) (Cols X) (Layers (st_regr st))"
proof -
  let ?epochs = "if Epochs regr \<le> 0 then 100 else Epochs regr"
  from run obtain rng1 layers where cl: "create_layers ext rng regr X Y = Inr (rng1, layers)"
    by (auto simp: Fit_def split: sum.splits)
  let ?st0 = "\<lparr>st_rng = rng1, st_regr = regr\<lparr>Layers := layers, Epochs := ?epochs\<rparr>,
               st_X = X, st_Y = Y\<rparr>"
  from run cl have loop: "for_each (fit_epoch ext (LossFunctions ext (Loss regr)) (length layers - 1) (Rows X))
      [0..<nat ?epochs] ?st0 = Inr st"
    by (simp add: Fit_def Let_def)
  have "0 < nat ?epochs" by simp
  then have "[0..<nat ?epochs] = 0 # [Suc 0..<nat ?epochs]" by (rule upt_conv_Cons)
  with loop have loop': "for_each (fit_epoch ext (LossFunctions ext (Loss regr)) (length layers - 1) (Rows X))
      (0 # [Suc 0..<nat ?epochs]) ?st0 = Inr st" by simp
  from create_layers_unallocated[OF cl] have u: "\<forall>L\<in>set layers. Ypred L = None" and ne: "layers \<noteq> []"
    by auto
  have "net_shapes (Rows (st_X ?st0)) (Cols (st_X ?st0)) (Layers (st_regr st))"
    by (rule fit_epochs_shapes[OF loop' _ _ _ c])
       (use u ne in \<open>simp_all add: unallocated_or_shaped_def list_all_iff\<close>)
  then show ?thesis by simp
qed

lemma shape_contract_ext0: "shape_contract ext0"
  by (auto simp: shape_contract_def ext0_def LossFunctions0_def loss_contract_def Loss0_def
      mean_grad_def split: if_splits)

text \<open>
  C9. The shapes of a layer are kept by every operation that returns. \<open>NewLayer\<close>, called
  with one more row than the layer has inputs, creates weights of \<open>1 + inputs\<close> rows;
  \<open>Init\<close> allocates predictions, targets and diff of shape \<open>(samples, outputs)\<close> and gradient
  and update of shape \<open>(1 + inputs, outputs)\<close>; the forward pass establishes the invariant for
  every layer of a network whose layers were unallocated or had it for this batch size; the
  turn of a layer in the backward pass, which ends with the update of the weights, keeps it
  for every layer; and so every layer has it when \<open>Fit\<close> returns. The inputs of layer 0
  are the features of \<open>X\<close>, the inputs of a later layer are the outputs of the layer before.
\<close>

theorem layer_shape_invariant:
  "(NewLayer ext rng (1 + int inputs) (int outputs) a opt = Inr (rng', L) \<longrightarrow>
      Rows (Theta L) = 1 + inputs \<and> Cols (Theta L) = outputs)
   \<and> (Rows (Theta L0) = 1 + inputs \<longrightarrow>
      (\<exists>L1. Init L0 (int samples) (int inputs) = Inr L1 \<and> layer_shapes samples inputs L1))
   \<and> (Predict ext regr X Yout = Inr (regr1, out) \<and> unallocated_or_shaped (Rows X) (Layers regr) \<longrightarrow>
      net_shapes (Rows X) (Cols X) (Layers regr1))
   \<and> (backward_layer ext (LossFunctions ext name) X Y outputLayer n epoch l regr2 = Inr regr3
        \<and> net_shapes (Rows X) (Cols X) (Layers regr2) \<and> l < length (Layers regr2)
        \<and> shape_contract ext \<longrightarrow>
      net_shapes (Rows X) (Cols X) (Layers regr3))
   \<and> (Fit ext rng regr X Y = Inr st \<and> shape_contract ext \<longrightarrow>
      net_shapes (Rows X) (Cols X) (Layers (st_regr st)))"
proof (intro conjI impI)
  assume "NewLayer ext rng (1 + int inputs) (int outputs) a opt = Inr (rng', L)"
  from NewLayer_result(1,2)[OF this] show "Rows (Theta L) = 1 + inputs" "Cols (Theta L) = outputs"
    by (simp_all add: nat_add_distrib)
next
  assume "Rows (Theta L0) = 1 + inputs"
  from Init_shapes[OF this]
  show "\<exists>L1. Init L0 (int samples) (int inputs) = Inr L1 \<and> layer_shapes samples inputs L1"
    by blast
next
  assume "Predict ext regr X Yout = Inr (regr1, out) \<and> unallocated_or_shaped (Rows X) (Layers regr)"
  then show "net_shapes (Rows X) (Cols X) (Layers regr1)"
    by (elim conjE) (rule Predict_shapes)
next
  assume "backward_layer ext (LossFunctions ext name) X Y outputLayer n epoch l regr2 = Inr regr3
        \<and> net_shapes (Rows X) (Cols X) (Layers regr2) \<and> l < length (Layers regr2)
        \<and> shape_contract ext"
  then show "net_shapes (Rows X) (Cols X) (Layers regr3)"
    by (elim conjE) (rule backward_layer_shapes)
next
  assume "Fit ext rng regr X Y = Inr st \<and> shape_contract ext"
  then show "net_shapes (Rows X) (Cols X) (Layers (st_regr st))"
    by (elim conjE) (rule Fit_shapes)
qed

theorem layer_shape_invariant_witness:
  "(case NewLayer ext0 0 (1 + int 1) (int 1) (Some Identity) 0 of
      Inl e \<Rightarrow> False
    | Inr (rng', L) \<Rightarrow> Rows (Theta L) = 1 + 1 \<and> Cols (Theta L) = 1)
   \<and> (\<exists>L1. Init (Layers net_ex ! 0) (int 2) (int 1) = Inr L1 \<and> layer_shapes 2 1 L1)
   \<and> (case Predict ext0 net_ex X_ex None of
        Inl e \<Rightarrow> False
      | Inr (regr1, out) \<Rightarrow>
          net_shapes (Rows X_ex) (Cols X_ex) (Layers regr1)
          \<and> (case backward_layer ext0 (LossFunctions ext0 ''square'') X_ex Y_ex 0 2 0 0 regr1 of
               Inl e \<Rightarrow> False
             | Inr regr3 \<Rightarrow> net_shapes (Rows X_ex) (Cols X_ex) (Layers regr3)))
   \<and> (case Fit ext0 0 (regr_hidden_ex\<lparr>Epochs := 1\<rparr>) X_ex Y_ex of
        Inl e \<Rightarrow> False
      | Inr st \<Rightarrow> net_shapes (Rows X_ex) (Cols X_ex) (Layers (st_regr st)))"
proof -
  note inv = layer_shape_invariant
  have c: "shape_contract ext0"
    by (rule shape_contract_ext0)
  \<comment> \<open>layer creation\<close>
  have "\<not> isl (NewLayer ext0 0 (1 + int 1) (int 1) (Some Identity) 0)" by code_simp
  then obtain rng' :: nat and L :: "nat Layer"
    where n: "NewLayer ext0 0 (1 + int 1) (int 1) (Some Identity) 0 = Inr (rng', L)"
    by (metis sum.collapse(2) surj_pair)
  from inv[THEN conjunct1, rule_format, OF n]
  have p1: "Rows (Theta L) = 1 + 1 \<and> Cols (Theta L) = 1" .
  \<comment> \<open>buffer allocation\<close>
  have "Rows (Theta (Layers net_ex ! 0)) = 1 + 1"
    by (simp add: net_ex_def of_rows_def)
  from inv[THEN conjunct2, THEN conjunct1, rule_format, OF this, of 2]
  have p2: "\<exists>L1. Init (Layers net_ex ! 0) (int 2) (int 1) = Inr L1 \<and> layer_shapes 2 1 L1" .
  \<comment> \<open>forward pass\<close>
  have "\<not> isl (Predict ext0 net_ex X_ex None)" by code_simp
  then obtain regr1 out where run: "Predict ext0 net_ex X_ex None = Inr (regr1, out)"
    by (metis sum.collapse(2) surj_pair)
  have u: "unallocated_or_shaped (Rows X_ex) (Layers net_ex)"
    by (simp add: net_ex_def unallocated_or_shaped_def)
  from inv[THEN conjunct2, THEN conjunct2, THEN conjunct1, rule_format, OF conjI, OF run u]
  have p3: "net_shapes (Rows X_ex) (Cols X_ex) (Layers regr1)" .
  \<comment> \<open>backward pass and update of the weights\<close>
  have "\<not> isl (and_then (on_result fst (Predict ext0 net_ex X_ex None))
                 (backward_layer ext0 (LossFunctions ext0 ''square'') X_ex Y_ex 0 2 0 0))"
    by code_simp
  then have "\<not> isl (backward_layer ext0 (LossFunctions ext0 ''square'') X_ex Y_ex 0 2 0 0 regr1)"
    unfolding run and_then_def on_result_def by simp
  then obtain regr3 where
    b: "backward_layer ext0 (LossFunctions ext0 ''square'') X_ex Y_ex 0 2 0 0 regr1 = Inr regr3"
    by (metis sum.collapse(2))
  have "on_result (\<lambda>p. length (Layers (fst p))) (Predict ext0 net_ex X_ex None) = Inr 1"
    by code_simp
  then have len: "0 < length (Layers regr1)" unfolding run on_result_def by simp
  from inv[THEN conjunct2, THEN conjunct2, THEN conjunct2, THEN conjunct1, rule_format,
      OF conjI, OF b conjI, OF p3 conjI, OF len c]
  have p4: "net_shapes (Rows X_ex) (Cols X_ex) (Layers regr3)" .
  \<comment> \<open>a whole fit\<close>
  have "\<not> isl (Fit ext0 0 (regr_hidden_ex\<lparr>Epochs := 1\<rparr>) X_ex Y_ex)" by code_simp
  then obtain st where f: "Fit ext0 0 (regr_hidden_ex\<lparr>Epochs := 1\<rparr>) X_ex Y_ex = Inr st"
    by (metis sum.collapse(2))
  from inv[THEN conjunct2, THEN conjunct2, THEN conjunct2, THEN conjunct2, rule_format,
      OF conjI, OF f c]
  have p5: "net_shapes (Rows X_ex) (Cols X_ex) (Layers (st_regr st))" .
  from p1 p2 p3 p4 p5 show ?thesis
    unfolding n run f by (simp add: b)
qed

end
